theory Spec2Isabelle
  imports Complex_Main
begin

section \<open>The hexagonal tile wipe transition\<close>

text \<open>
  The repository holds two versions of the transition component:
  \<^item> the directional one (\<^verbatim>\<open>unnamed/part_008\<close>): a horizontal wave, quartic easing, an
    enlarged draw radius; its functions keep their source names here;
  \<^item> the radial one (\<^verbatim>\<open>src/components/PageTransition.tsx\<close>): a wave around an origin,
    cubic easing; its functions carry the suffix \<open>_radial\<close>.

  A finite JavaScript number is idealised as a real number: \<open>Math.sqrt\<close>, \<open>Math.sin\<close>,
  \<open>Math.cos\<close>, \<open>Math.pow\<close> and \<open>Math.ceil\<close> are the real functions on it, and rounding is
  left out. Where the code divides by a quantity that can be zero, the quotient is a
  \<open>jsnum\<close> (below), which also has the two infinities and NaN. \<open>Math.random()\<close> is a
  stream of draws \<open>rnd 0, rnd 1, \<dots>\<close>, one per tile in loop order.
\<close>

subsection \<open>Numbers that need not be finite\<close>

text \<open>
  The arithmetic of JavaScript on finite numbers, infinities and NaN, for the operations
  the delay field and the compositor use. A zero is the positive zero: the zero
  denominators of this program are a difference \<open>x - x\<close>, a square root, or the width or
  height of the window. Every comparison with NaN is false.
\<close>

datatype jsnum = Num real | PosInf | NegInf | NaN

fun js_neg :: "jsnum \<Rightarrow> jsnum" where
  "js_neg (Num a) = Num (- a)"
| "js_neg PosInf = NegInf"
| "js_neg NegInf = PosInf"
| "js_neg NaN = NaN"

fun js_add :: "jsnum \<Rightarrow> jsnum \<Rightarrow> jsnum" where
  "js_add (Num a) (Num b) = Num (a + b)"
| "js_add NaN v = NaN"
| "js_add v NaN = NaN"
| "js_add PosInf NegInf = NaN"
| "js_add NegInf PosInf = NaN"
| "js_add PosInf v = PosInf"
| "js_add v PosInf = PosInf"
| "js_add NegInf v = NegInf"
| "js_add v NegInf = NegInf"

definition js_sub :: "jsnum \<Rightarrow> jsnum \<Rightarrow> jsnum" where
  "js_sub u v = js_add u (js_neg v)"

fun js_mul :: "jsnum \<Rightarrow> jsnum \<Rightarrow> jsnum" where
  "js_mul (Num a) (Num b) = Num (a * b)"
| "js_mul NaN v = NaN"
| "js_mul v NaN = NaN"
| "js_mul PosInf (Num b) = (if b = 0 then NaN else if 0 < b then PosInf else NegInf)"
| "js_mul NegInf (Num b) = (if b = 0 then NaN else if 0 < b then NegInf else PosInf)"
| "js_mul (Num a) PosInf = (if a = 0 then NaN else if 0 < a then PosInf else NegInf)"
| "js_mul (Num a) NegInf = (if a = 0 then NaN else if 0 < a then NegInf else PosInf)"
| "js_mul PosInf PosInf = PosInf"
| "js_mul NegInf NegInf = PosInf"
| "js_mul PosInf NegInf = NegInf"
| "js_mul NegInf PosInf = NegInf"

fun js_div :: "jsnum \<Rightarrow> jsnum \<Rightarrow> jsnum" where
  "js_div (Num a) (Num b) =
     (if b = 0 then (if a = 0 then NaN else if 0 < a then PosInf else NegInf)
      else Num (a / b))"
| "js_div NaN v = NaN"
| "js_div v NaN = NaN"
| "js_div (Num a) PosInf = Num 0"
| "js_div (Num a) NegInf = Num 0"
| "js_div PosInf (Num b) = (if b < 0 then NegInf else PosInf)"
| "js_div NegInf (Num b) = (if b < 0 then PosInf else NegInf)"
| "js_div PosInf PosInf = NaN"
| "js_div PosInf NegInf = NaN"
| "js_div NegInf PosInf = NaN"
| "js_div NegInf NegInf = NaN"

fun js_sqrt :: "jsnum \<Rightarrow> jsnum" where
  "js_sqrt (Num a) = (if a < 0 then NaN else Num (sqrt a))"
| "js_sqrt PosInf = PosInf"
| "js_sqrt NegInf = NaN"
| "js_sqrt NaN = NaN"

fun js_min :: "jsnum \<Rightarrow> jsnum \<Rightarrow> jsnum" where
  "js_min (Num a) (Num b) = Num (min a b)"
| "js_min NaN v = NaN"
| "js_min v NaN = NaN"
| "js_min NegInf v = NegInf"
| "js_min v NegInf = NegInf"
| "js_min PosInf v = v"
| "js_min v PosInf = v"

fun js_max :: "jsnum \<Rightarrow> jsnum \<Rightarrow> jsnum" where
  "js_max (Num a) (Num b) = Num (max a b)"
| "js_max NaN v = NaN"
| "js_max v NaN = NaN"
| "js_max PosInf v = PosInf"
| "js_max v PosInf = PosInf"
| "js_max NegInf v = v"
| "js_max v NegInf = v"

subsection \<open>Configuration\<close>

definition HEX_SIZE :: real where "HEX_SIZE = 40"
definition HEX_DRAW_SIZE :: real where "HEX_DRAW_SIZE = 48"
definition WAVE_SPREAD :: real where "WAVE_SPREAD = 0.5"
definition STAGGER_NOISE :: real where "STAGGER_NOISE = 0.03"
definition DURATION :: real where "DURATION = 950"

definition HEX_SIZE_radial :: real where "HEX_SIZE_radial = 32"
definition WAVE_SPREAD_radial :: real where "WAVE_SPREAD_radial = 0.35"
definition STAGGER_NOISE_radial :: real where "STAGGER_NOISE_radial = 0.06"
definition DURATION_radial :: real where "DURATION_radial = 850"

subsection \<open>Tiles and the grid generator\<close>

record hex =
  hx :: real
  hy :: real
  delay :: jsnum

text \<open>
  The two nested \<open>for\<close> loops push one tile per (row, column), rows outermost. A bound
  that is not positive runs a loop zero times, which is what \<open>nat\<close> of it gives.
\<close>

definition generateHexGrid :: "real \<Rightarrow> real \<Rightarrow> hex list" where
  "generateHexGrid width height =
     (let hexWidth = HEX_SIZE * 2;
          hexHeight = sqrt 3 * HEX_SIZE;
          horizDist = hexWidth * 0.72;
          vertDist = hexHeight * 0.88;
          cols = \<lceil>width / horizDist\<rceil> + 8;
          rows = \<lceil>height / vertDist\<rceil> + 8;
          startX = - HEX_SIZE * 4;
          startY = - HEX_SIZE * 4
      in concat (map (\<lambda>row. map (\<lambda>col.
           \<lparr>hx = startX + real col * horizDist,
            hy = startY + real row * vertDist + (if col mod 2 = 1 then vertDist / 2 else 0),
            delay = Num 0\<rparr>) [0..<nat cols]) [0..<nat rows]))"

definition generateHexGrid_radial :: "real \<Rightarrow> real \<Rightarrow> hex list" where
  "generateHexGrid_radial width height =
     (let hexWidth = HEX_SIZE_radial * 2;
          hexHeight = sqrt 3 * HEX_SIZE_radial;
          horizDist = hexWidth * 0.75 + 2;
          vertDist = hexHeight + 2;
          cols = \<lceil>width / horizDist\<rceil> + 4;
          rows = \<lceil>height / vertDist\<rceil> + 4
      in concat (map (\<lambda>row. map (\<lambda>col.
           \<lparr>hx = - HEX_SIZE_radial * 2 + real col * horizDist,
            hy = - HEX_SIZE_radial * 2 + real row * vertDist
                   + (if col mod 2 = 1 then vertDist / 2 else 0),
            delay = Num 0\<rparr>) [0..<nat cols]) [0..<nat rows]))"

subsection \<open>The delay field\<close>

datatype wave = Ltr | Rtl

text \<open>
  \<open>calculateDelays\<close> overwrites the delay of every tile in place, in list order; the
  counter is the number of \<open>Math.random()\<close> draws made so far.
\<close>

definition hexDelay :: "real \<Rightarrow> wave \<Rightarrow> real \<Rightarrow> hex \<Rightarrow> jsnum" where
  "hexDelay width direction r h =
     (let minX = - HEX_SIZE * 4;
          maxX = width + HEX_SIZE * 4;
          range = maxX - minX;
          normalizedX = js_div (Num (hx h - minX)) (Num range);
          verticalWave = sin (hy h * 0.015) * 0.02;
          randomOffset = (r - 0.5) * STAGGER_NOISE;
          baseDelay = (if direction = Ltr then normalizedX else js_sub (Num 1) normalizedX)
      in js_max (Num 0) (js_min (Num 0.95)
           (js_add (js_add (js_mul baseDelay (Num WAVE_SPREAD)) (Num verticalWave))
              (Num randomOffset))))"

fun calculateDelays_from :: "nat \<Rightarrow> (nat \<Rightarrow> real) \<Rightarrow> real \<Rightarrow> wave \<Rightarrow> hex list \<Rightarrow> hex list" where
  "calculateDelays_from k rnd width direction [] = []"
| "calculateDelays_from k rnd width direction (h # hs) =
     h\<lparr>delay := hexDelay width direction (rnd k) h\<rparr>
       # calculateDelays_from (Suc k) rnd width direction hs"

definition calculateDelays :: "(nat \<Rightarrow> real) \<Rightarrow> hex list \<Rightarrow> real \<Rightarrow> wave \<Rightarrow> hex list" where
  "calculateDelays rnd hexes width direction = calculateDelays_from 0 rnd width direction hexes"

text \<open>The origin, in pixels, is a product with the width or height and need not be finite.\<close>

definition hexDelay_radial :: "real \<Rightarrow> real \<Rightarrow> jsnum \<Rightarrow> jsnum \<Rightarrow> real \<Rightarrow> hex \<Rightarrow> jsnum" where
  "hexDelay_radial width height originX originY r h =
     (let maxDist = sqrt (width * width + height * height);
          dx = js_sub (Num (hx h)) originX;
          dy = js_sub (Num (hy h)) originY;
          dist = js_sqrt (js_add (js_mul dx dx) (js_mul dy dy));
          normalizedDist = js_div dist (Num maxDist);
          randomOffset = (r - 0.5) * STAGGER_NOISE_radial
      in js_max (Num 0) (js_min (Num 1)
           (js_add (js_mul normalizedDist (Num WAVE_SPREAD_radial)) (Num randomOffset))))"

fun calculateDelays_radial_from ::
  "nat \<Rightarrow> (nat \<Rightarrow> real) \<Rightarrow> real \<Rightarrow> real \<Rightarrow> jsnum \<Rightarrow> jsnum \<Rightarrow> hex list \<Rightarrow> hex list" where
  "calculateDelays_radial_from k rnd width height originX originY [] = []"
| "calculateDelays_radial_from k rnd width height originX originY (h # hs) =
     h\<lparr>delay := hexDelay_radial width height originX originY (rnd k) h\<rparr>
       # calculateDelays_radial_from (Suc k) rnd width height originX originY hs"

definition calculateDelays_radial ::
  "(nat \<Rightarrow> real) \<Rightarrow> hex list \<Rightarrow> real \<Rightarrow> real \<Rightarrow> jsnum \<Rightarrow> jsnum \<Rightarrow> hex list" where
  "calculateDelays_radial rnd hexes width height originX originY =
     calculateDelays_radial_from 0 rnd width height originX originY hexes"

subsection \<open>Drawing\<close>

text \<open>
  The 2D context is the list of the operations issued on it, oldest first. Colours are
  CSS strings.
\<close>

datatype canvas_op =
    SetSize real real
  | Scale real real
  | ClearRect real real real real
  | FillRect real real real real
  | SetFillStyle string
  | BeginPath
  | MoveTo real real
  | LineTo real real
  | ClosePath
  | Fill

definition hexCorner :: "real \<Rightarrow> real \<Rightarrow> real \<Rightarrow> nat \<Rightarrow> real \<times> real" where
  "hexCorner cx cy sz i =
     (let angleDeg = 60 * real i - 30;
          angleRad = (pi / 180) * angleDeg
      in (cx + sz * cos angleRad, cy + sz * sin angleRad))"

definition hexPath :: "real \<Rightarrow> real \<Rightarrow> real \<Rightarrow> canvas_op list" where
  "hexPath cx cy sz =
     map (\<lambda>i. case hexCorner cx cy sz i of (px, py) \<Rightarrow>
                 if i = 0 then MoveTo px py else LineTo px py) [0..<6]"

definition drawHexagon :: "real \<Rightarrow> real \<Rightarrow> real \<Rightarrow> string \<Rightarrow> canvas_op list" where
  "drawHexagon cx cy sz fillStyle =
     (if sz < 1 then []
      else [BeginPath] @ hexPath cx cy sz @ [ClosePath, SetFillStyle fillStyle, Fill])"

definition drawHexagon_radial :: "real \<Rightarrow> real \<Rightarrow> real \<Rightarrow> string \<Rightarrow> canvas_op list" where
  "drawHexagon_radial cx cy sz fillStyle =
     (if sz < 0.5 then []
      else [BeginPath] @ hexPath cx cy sz @ [ClosePath, SetFillStyle fillStyle, Fill])"

definition easeOutQuart :: "real \<Rightarrow> real" where
  "easeOutQuart t = 1 - (1 - t) ^ 4"

definition easeInQuart :: "real \<Rightarrow> real" where
  "easeInQuart t = t * t * t * t"

definition easeInOutCubic :: "real \<Rightarrow> real" where
  "easeInOutCubic t = (if t < 0.5 then 4 * t * t * t else 1 - (- 2 * t + 2) ^ 3 / 2)"

subsection \<open>The canvas component\<close>

datatype direction = Reveal | Hide

datatype callback = OnPartialReveal | OnComplete

text \<open>
  The props of \<open>HexGridCanvas\<close>. The two optional handlers are flags: whether a handler
  was supplied; \<open>onPartialReveal?.()\<close> calls it only then. \<open>lightColor\<close> is read by the
  directional version only, \<open>originX\<close> and \<open>originY\<close> by the radial one only.
\<close>

record props =
  isActive :: bool
  direction :: direction
  onComplete :: bool
  onPartialReveal :: bool
  darkColor :: string
  lightColor :: string
  originX :: jsnum
  originY :: jsnum

text \<open>
  What the effect reads from the host at the start of a run: whether the canvas element
  and its 2D context exist, the window, the reduced-motion media query, and the random
  draws.
\<close>

record env =
  canvasPresent :: bool
  ctxPresent :: bool
  devicePixelRatio :: real
  innerWidth :: real
  innerHeight :: real
  prefersReducedMotion :: bool
  rnd :: "nat \<Rightarrow> real"

datatype timeout_body = FireBoth | StartFrames

text \<open>
  The refs of one mounted canvas, with what it has done so far: the operations on the
  context, a pending \<open>setTimeout\<close> (its delay in ms and its body), whether an animation
  frame is requested, and the callbacks invoked, grouped by the host task (a timer or a
  frame callback) that invoked them, oldest task first.
\<close>

record canvas =
  hexes :: "hex list"
  partialFired :: bool
  startTime :: "real option"
  frameRequested :: bool
  timer :: "(real \<times> timeout_body) option"
  ops :: "canvas_op list"
  tasks :: "callback list list"

definition mounted :: canvas where
  "mounted = \<lparr>hexes = [], partialFired = False, startTime = None, frameRequested = False,
              timer = None, ops = [], tasks = []\<rparr>"

definition dpr_of :: "env \<Rightarrow> real" where
  "dpr_of e = (if devicePixelRatio e = 0 then 1 else devicePixelRatio e)"

definition initialFrame :: "props \<Rightarrow> real \<Rightarrow> real \<Rightarrow> hex list \<Rightarrow> canvas_op list" where
  "initialFrame p width height hs =
     [ClearRect 0 0 width height, SetFillStyle (lightColor p), FillRect 0 0 width height]
     @ (if direction p = Reveal
        then concat (map (\<lambda>h. drawHexagon (hx h) (hy h) HEX_DRAW_SIZE (darkColor p)) hs)
        else [])"

text \<open>The body of the effect of \<open>HexGridCanvas\<close>, directional version.\<close>

definition startRun :: "props \<Rightarrow> env \<Rightarrow> canvas \<Rightarrow> canvas" where
  "startRun p e c =
     (if \<not> isActive p then c
      else if \<not> canvasPresent e then c
      else
        let dpr = dpr_of e;
            width = innerWidth e;
            height = innerHeight e;
            c1 = c\<lparr>ops := ops c @ [SetSize (width * dpr) (height * dpr)]\<rparr>
        in if \<not> ctxPresent e then c1
           else
             let waveDirection = (if direction p = Reveal then Ltr else Rtl);
                 hs = calculateDelays (rnd e) (generateHexGrid width height) width waveDirection;
                 c2 = c1\<lparr>ops := ops c1 @ [Scale dpr dpr], hexes := hs,
                         startTime := None, partialFired := False\<rparr>
             in if prefersReducedMotion e then c2\<lparr>timer := Some (50, FireBoth)\<rparr>
                else c2\<lparr>ops := ops c2 @ initialFrame p width height hs,
                        timer := Some (16, StartFrames)\<rparr>)"

definition initialFrame_radial :: "props \<Rightarrow> real \<Rightarrow> real \<Rightarrow> hex list \<Rightarrow> canvas_op list" where
  "initialFrame_radial p width height hs =
     [ClearRect 0 0 width height]
     @ (if direction p = Reveal
        then concat (map (\<lambda>h. drawHexagon_radial (hx h) (hy h) HEX_SIZE_radial (darkColor p)) hs)
        else [])"

definition startRun_radial :: "props \<Rightarrow> env \<Rightarrow> canvas \<Rightarrow> canvas" where
  "startRun_radial p e c =
     (if \<not> isActive p then c
      else if \<not> canvasPresent e then c
      else
        let dpr = dpr_of e;
            width = innerWidth e;
            height = innerHeight e;
            c1 = c\<lparr>ops := ops c @ [SetSize (width * dpr) (height * dpr)]\<rparr>
        in if \<not> ctxPresent e then c1
           else
             let hs = calculateDelays_radial (rnd e) (generateHexGrid_radial width height)
                        width height (js_mul (originX p) (Num width))
                        (js_mul (originY p) (Num height));
                 c2 = c1\<lparr>ops := ops c1 @ [Scale dpr dpr], hexes := hs,
                         startTime := None, partialFired := False\<rparr>
             in if prefersReducedMotion e then c2\<lparr>timer := Some (50, FireBoth)\<rparr>
                else c2\<lparr>ops := ops c2 @ initialFrame_radial p width height hs,
                        frameRequested := True\<rparr>)"

text \<open>A pending timeout fires: one host task, which runs the whole body.\<close>

definition fireTimeout :: "props \<Rightarrow> canvas \<Rightarrow> canvas" where
  "fireTimeout p c =
     (case timer c of
        None \<Rightarrow> c
      | Some (ms, FireBoth) \<Rightarrow>
          c\<lparr>timer := None,
            tasks := tasks c @ [(if onPartialReveal p then [OnPartialReveal] else [])
                                @ (if onComplete p then [OnComplete] else [])]\<rparr>
      | Some (ms, StartFrames) \<Rightarrow> c\<lparr>timer := None, frameRequested := True\<rparr>)"

subsection \<open>The frame callback\<close>

text \<open>
  The body of the loop over the tiles in \<open>animate\<close>. \<open>tileSize\<close> is the radius handed
  to \<open>drawHexagon\<close> for one tile, \<open>None\<close> when the test on \<open>scale\<close> (on \<open>easedProgress\<close>
  in the radial version) skips the call; \<open>drawTile\<close> is what the tile adds to the frame.
  The clamp of the tile's progress gives a finite number or NaN, never an infinity. With
  NaN the eased progress and the scale are NaN too, the test is false and the call is
  skipped.
\<close>

definition tileSize :: "props \<Rightarrow> real \<Rightarrow> hex \<Rightarrow> real option" where
  "tileSize p progress h =
     (case js_max (Num 0) (js_min (Num 1)
             (js_div (js_sub (Num progress) (delay h)) (Num (1 - WAVE_SPREAD)))) of
        Num hexProgress \<Rightarrow>
          if direction p = Reveal
          then (let easedProgress = easeOutQuart hexProgress;
                    scale = 1 - easedProgress
                in if scale > 0.01 then Some (HEX_DRAW_SIZE * scale) else None)
          else (let easedProgress = easeInQuart hexProgress;
                    scale = easedProgress
                in if scale > 0.01 then Some (HEX_DRAW_SIZE * scale) else None)
      | _ \<Rightarrow> None)"

definition drawTile :: "props \<Rightarrow> real \<Rightarrow> hex \<Rightarrow> canvas_op list" where
  "drawTile p progress h =
     (case tileSize p progress h of
        None \<Rightarrow> []
      | Some sz \<Rightarrow> drawHexagon (hx h) (hy h) sz (darkColor p))"

definition tileSize_radial :: "props \<Rightarrow> real \<Rightarrow> hex \<Rightarrow> real option" where
  "tileSize_radial p progress h =
     (case js_max (Num 0) (js_min (Num 1)
             (js_div (js_sub (Num progress) (delay h)) (Num (1 - WAVE_SPREAD_radial)))) of
        Num hexProgress \<Rightarrow>
          (let easedProgress = easeInOutCubic hexProgress
           in if direction p = Reveal
              then (if easedProgress < 1
                    then Some (HEX_SIZE_radial * (1 - easedProgress)) else None)
              else (if easedProgress > 0 then Some (HEX_SIZE_radial * easedProgress) else None))
      | _ \<Rightarrow> None)"

definition drawTile_radial :: "props \<Rightarrow> real \<Rightarrow> hex \<Rightarrow> canvas_op list" where
  "drawTile_radial p progress h =
     (case tileSize_radial p progress h of
        None \<Rightarrow> []
      | Some sz \<Rightarrow> drawHexagon_radial (hx h) (hy h) sz (darkColor p))"

text \<open>
  One call of \<open>animate\<close>: one host task. It appends its frame to the context, records
  the callbacks it invoked (possibly none) as one task, and requests the next frame
  exactly when the progress is below 1.
\<close>

definition animate :: "props \<Rightarrow> env \<Rightarrow> real \<Rightarrow> canvas \<Rightarrow> canvas" where
  "animate p e timestamp c =
     (let start = (case startTime c of None \<Rightarrow> timestamp | Some t0 \<Rightarrow> t0);
          elapsed = timestamp - start;
          progress = min 1 (elapsed / DURATION);
          width = innerWidth e;
          height = innerHeight e;
          frame = [ClearRect 0 0 width height, SetFillStyle (lightColor p),
                   FillRect 0 0 width height]
                  @ concat (map (drawTile p progress) (hexes c));
          fire = (\<not> partialFired c \<and> progress \<ge> 0.45 \<and> direction p = Reveal)
      in c\<lparr>startTime := Some start,
            ops := ops c @ frame,
            partialFired := (partialFired c \<or> fire),
            frameRequested := (progress < 1),
            tasks := tasks c @ [(if fire \<and> onPartialReveal p then [OnPartialReveal] else [])
                                @ (if progress < 1 then []
                                   else if onComplete p then [OnComplete] else [])]\<rparr>)"

definition animate_radial :: "props \<Rightarrow> env \<Rightarrow> real \<Rightarrow> canvas \<Rightarrow> canvas" where
  "animate_radial p e timestamp c =
     (let start = (case startTime c of None \<Rightarrow> timestamp | Some t0 \<Rightarrow> t0);
          elapsed = timestamp - start;
          progress = min 1 (elapsed / DURATION_radial);
          width = innerWidth e;
          height = innerHeight e;
          frame = [ClearRect 0 0 width height]
                  @ concat (map (drawTile_radial p progress) (hexes c));
          fire = (\<not> partialFired c \<and> progress \<ge> 0.55 \<and> direction p = Reveal)
      in c\<lparr>startTime := Some start,
            ops := ops c @ frame,
            partialFired := (partialFired c \<or> fire),
            frameRequested := (progress < 1),
            tasks := tasks c @ [(if fire \<and> onPartialReveal p then [OnPartialReveal] else [])
                                @ (if progress < 1 then []
                                   else if onComplete p then [OnComplete] else [])]\<rparr>)"

text \<open>
  The host clock delivers the timestamps of a list, in order, to the frame callback for
  as long as a frame is requested; a timestamp that finds no request is never delivered.
\<close>

fun runFrames :: "props \<Rightarrow> env \<Rightarrow> real list \<Rightarrow> canvas \<Rightarrow> canvas" where
  "runFrames p e [] c = c"
| "runFrames p e (t # ts) c =
     (if frameRequested c then runFrames p e ts (animate p e t c) else c)"

fun runFrames_radial :: "props \<Rightarrow> env \<Rightarrow> real list \<Rightarrow> canvas \<Rightarrow> canvas" where
  "runFrames_radial p e [] c = c"
| "runFrames_radial p e (t # ts) c =
     (if frameRequested c then runFrames_radial p e ts (animate_radial p e t c) else c)"

text \<open>
  A run of a freshly mounted canvas that is not cancelled: the effect, then its timeout
  if it set one, then the frames.
\<close>

definition run :: "props \<Rightarrow> env \<Rightarrow> real list \<Rightarrow> canvas" where
  "run p e ticks = runFrames p e ticks (fireTimeout p (startRun p e mounted))"

definition run_radial :: "props \<Rightarrow> env \<Rightarrow> real list \<Rightarrow> canvas" where
  "run_radial p e ticks =
     runFrames_radial p e ticks (fireTimeout p (startRun_radial p e mounted))"

definition callbacks :: "canvas \<Rightarrow> callback list" where
  "callbacks c = concat (tasks c)"

subsection \<open>The page component\<close>

datatype phase = Entering | Visible | Exiting

text \<open>
  The state of \<open>PageTransition\<close>: its React states at their latest set values
  (\<open>exitOrigin\<close> exists in the radial version only), the window slot \<open>__exitTarget\<close> (\<open>None\<close> when the property is absent) and the calls of
  \<open>navigate\<close> so far. Three more fields describe the last committed render:
  \<open>renderedPhase\<close> is the value of \<open>phase\<close> that the handler stored in
  \<open>window.__paperPageExit\<close> closed over, \<open>activeCanvas\<close> the canvas that render mounted
  with \<open>isActive\<close> set, and \<open>runs\<close> the canvas runs started so far.
\<close>

record page =
  phase :: phase
  showContent :: bool
  showCanvas :: bool
  exitOrigin :: "jsnum \<times> jsnum"
  exitTarget :: "string option"
  navigations :: "string list"
  renderedPhase :: phase
  activeCanvas :: "direction option"
  runs :: "direction list"

definition onPathChange :: "page \<Rightarrow> page" where
  "onPathChange s = s\<lparr>phase := Entering, showCanvas := True, showContent := False\<rparr>"

definition handlePartialReveal :: "page \<Rightarrow> page" where
  "handlePartialReveal s = s\<lparr>showContent := True\<rparr>"

definition handleEnterComplete :: "page \<Rightarrow> page" where
  "handleEnterComplete s = s\<lparr>phase := Visible, showCanvas := False\<rparr>"

text \<open>A stored target is a string; the only falsy string is the empty one.\<close>

definition handleExitComplete :: "page \<Rightarrow> page" where
  "handleExitComplete s =
     (case exitTarget s of
        None \<Rightarrow> s
      | Some target \<Rightarrow>
          if target \<noteq> []
          then s\<lparr>navigations := navigations s @ [target], exitTarget := None\<rparr>
          else s)"

text \<open>
  \<open>handleExit\<close> is a closure over the \<open>phase\<close> of the render that created it
  (\<open>useCallback(\<dots>, [phase])\<close>): that captured value is its first argument. \<open>setPhase\<close>
  changes the state for the next render, not the captured value.
\<close>

definition handleExit :: "phase \<Rightarrow> string \<Rightarrow> page \<Rightarrow> page" where
  "handleExit capturedPhase targetPath s =
     (if capturedPhase = Exiting then s
      else s\<lparr>exitTarget := Some targetPath, phase := Exiting,
              showCanvas := True, showContent := False\<rparr>)"

text \<open>
  The radial version also takes the click position, each coordinate possibly undefined,
  and reads the window size.
\<close>

definition handleExit_radial ::
  "phase \<Rightarrow> real \<Rightarrow> real \<Rightarrow> string \<Rightarrow> real option \<Rightarrow> real option \<Rightarrow> page \<Rightarrow> page" where
  "handleExit_radial capturedPhase winWidth winHeight targetPath clickX clickY s =
     (if capturedPhase = Exiting then s
      else
        let s1 = s\<lparr>exitTarget := Some targetPath\<rparr>;
            s2 = (case (clickX, clickY) of
                    (Some cx, Some cy) \<Rightarrow> s1\<lparr>exitOrigin := (js_div (Num cx) (Num winWidth),
                                         js_div (Num cy) (Num winHeight))\<rparr>
                  | _ \<Rightarrow> s1)
        in s2\<lparr>phase := Exiting, showCanvas := True, showContent := False\<rparr>)"

text \<open>
  A commit of the component: the handler is created anew over the current \<open>phase\<close> and
  stored in the window, and the canvas for the current phase is mounted; a canvas that
  was not the active one before starts a run.
\<close>

definition canvasOf :: "page \<Rightarrow> direction option" where
  "canvasOf s =
     (if phase s = Entering \<and> showCanvas s then Some Reveal
      else if phase s = Exiting \<and> showCanvas s then Some Hide
      else None)"

definition commit :: "page \<Rightarrow> page" where
  "commit s =
     s\<lparr>renderedPhase := phase s,
       activeCanvas := canvasOf s,
       runs := (case canvasOf s of
                  None \<Rightarrow> runs s
                | Some d \<Rightarrow> if activeCanvas s = Some d then runs s else runs s @ [d])\<rparr>"

text \<open>A call of \<open>window.__paperPageExit\<close>, as \<open>TransitionBackLink\<close> makes it.\<close>

definition paperPageExit :: "string \<Rightarrow> page \<Rightarrow> page" where
  "paperPageExit targetPath s = handleExit (renderedPhase s) targetPath s"

definition paperPageExit_radial ::
  "real \<Rightarrow> real \<Rightarrow> string \<Rightarrow> real option \<Rightarrow> real option \<Rightarrow> page \<Rightarrow> page" where
  "paperPageExit_radial winWidth winHeight targetPath clickX clickY s =
     handleExit_radial (renderedPhase s) winWidth winHeight targetPath clickX clickY s"

text \<open>A state as a commit leaves it.\<close>

definition committed :: "page \<Rightarrow> bool" where
  "committed s \<longleftrightarrow> renderedPhase s = phase s \<and> activeCanvas s = canvasOf s"

subsection \<open>Names for what \<open>animate\<close> computes\<close>

text \<open>
  The global progress that a call of \<open>animate\<close> at a timestamp computes, and its test
  for firing the partial-reveal callback, as functions of the canvas before the call.
\<close>

definition progressAt :: "canvas \<Rightarrow> real \<Rightarrow> real" where
  "progressAt c t = min 1 ((t - (case startTime c of None \<Rightarrow> t | Some t0 \<Rightarrow> t0)) / DURATION)"

definition fires :: "props \<Rightarrow> canvas \<Rightarrow> real \<Rightarrow> bool" where
  "fires p c t \<longleftrightarrow> \<not> partialFired c \<and> progressAt c t \<ge> 0.45 \<and> direction p = Reveal"

definition progressAt_radial :: "canvas \<Rightarrow> real \<Rightarrow> real" where
  "progressAt_radial c t =
     min 1 ((t - (case startTime c of None \<Rightarrow> t | Some t0 \<Rightarrow> t0)) / DURATION_radial)"

definition fires_radial :: "props \<Rightarrow> canvas \<Rightarrow> real \<Rightarrow> bool" where
  "fires_radial p c t \<longleftrightarrow>
     \<not> partialFired c \<and> progressAt_radial c t \<ge> 0.55 \<and> direction p = Reveal"

subsection \<open>A number in a range\<close>

text \<open>\<open>inRange c v\<close>: \<open>v\<close> is a finite number between 0 and \<open>c\<close>.\<close>

definition inRange :: "real \<Rightarrow> jsnum \<Rightarrow> bool" where
  "inRange c v = (case v of Num d \<Rightarrow> 0 \<le> d \<and> d \<le> c | PosInf \<Rightarrow> False
                  | NegInf \<Rightarrow> False | NaN \<Rightarrow> False)"

subsection \<open>The tile radius as the specification words it\<close>

text \<open>
  The specification of the compositor, to compare \<open>tileSize\<close> with: the local progress
  is the global progress less the delay over one less the spread, clamped to the unit
  interval; the easing is a quartic ease-out for reveal and a quartic ease-in for hide;
  the drawn radius is the draw radius times one less the eased progress for reveal, and
  times the eased progress for hide.
\<close>

definition spec_localProgress :: "real \<Rightarrow> real \<Rightarrow> real \<Rightarrow> real" where
  "spec_localProgress globalProgress d spread =
     max 0 (min 1 ((globalProgress - d) / (1 - spread)))"

definition spec_easedProgress :: "direction \<Rightarrow> real \<Rightarrow> real" where
  "spec_easedProgress dir localProgress =
     (case dir of Reveal \<Rightarrow> 1 - (1 - localProgress) ^ 4 | Hide \<Rightarrow> localProgress ^ 4)"

definition spec_drawnRadius :: "direction \<Rightarrow> real \<Rightarrow> real \<Rightarrow> real \<Rightarrow> real \<Rightarrow> real" where
  "spec_drawnRadius dir drawRadius globalProgress d spread =
     (let easedProgress = spec_easedProgress dir (spec_localProgress globalProgress d spread)
      in case dir of Reveal \<Rightarrow> drawRadius * (1 - easedProgress)
                   | Hide \<Rightarrow> drawRadius * easedProgress)"

section \<open>Properties of the page component\<close>

lemma committed_commit: "committed (commit s)"
  by (simp add: committed_def commit_def canvasOf_def)

lemma paperPageExit_dropped:
  "phase s = Exiting \<Longrightarrow> paperPageExit t (commit s) = commit s"
  by (simp add: paperPageExit_def handleExit_def commit_def)

lemma paperPageExit_radial_dropped:
  "phase s = Exiting \<Longrightarrow> paperPageExit_radial w h t cx cy (commit s) = commit s"
  by (simp add: paperPageExit_radial_def handleExit_radial_def commit_def)

text \<open>
  Once the exiting phase is committed, a further exit request changes nothing: the
  guard of \<open>handleExit\<close> works across a render.
\<close>

lemma second_exit_after_commit_dropped:
  assumes "renderedPhase s \<noteq> Exiting"
  shows "paperPageExit t2 (commit (paperPageExit t1 s)) = commit (paperPageExit t1 s)"
proof -
  have "phase (paperPageExit t1 s) = Exiting"
    using assms by (simp add: paperPageExit_def handleExit_def)
  then show ?thesis by (rule paperPageExit_dropped)
qed

text \<open>
  C1. Two calls of the exit handler in immediate succession, with no render between
  them, go through the same closure: it still holds the phase it was created with, its
  guard does not stop the second call, and the second target replaces the first in the
  slot. One hide run starts, and the navigation at its completion goes to the second
  target, not to the first. This holds in both versions of the component.
\<close>

theorem handleExit_twice_overwrites_target:
  "let s0 = \<lparr>phase = Visible, showContent = True, showCanvas = False, exitOrigin = (Num 0.5, Num 0.5),
              exitTarget = None, navigations = [], renderedPhase = Visible,
              activeCanvas = None, runs = [Reveal]\<rparr>;
       s2 = commit (paperPageExit ''/b'' (paperPageExit ''/a'' s0));
       r2 = commit (paperPageExit_radial 1920 1080 ''/b'' (Some 10) (Some 20)
                     (paperPageExit_radial 1920 1080 ''/a'' (Some 10) (Some 20) s0))
   in committed s0
      \<and> runs s2 = [Reveal, Hide] \<and> exitTarget s2 = Some ''/b''
      \<and> navigations (handleExitComplete s2) = [''/b'']
      \<and> runs r2 = [Reveal, Hide] \<and> exitTarget r2 = Some ''/b''
      \<and> navigations (handleExitComplete r2) = [''/b'']"
  by (simp add: Let_def committed_def canvasOf_def commit_def paperPageExit_def handleExit_def
      paperPageExit_radial_def handleExit_radial_def handleExitComplete_def)

text \<open>
  C8, as the specification states it, fails: with phase exiting and an empty slot, the
  completion handler leaves the phase exiting; nothing sets it to visible.
\<close>

theorem handleExitComplete_no_target_counterexample:
  "exitTarget \<lparr>phase = Exiting, showContent = False, showCanvas = True, exitOrigin = (Num 0.5, Num 0.5),
               exitTarget = None, navigations = [], renderedPhase = Exiting,
               activeCanvas = Some Hide, runs = [Reveal, Hide]\<rparr> = None
   \<and> phase (handleExitComplete
        \<lparr>phase = Exiting, showContent = False, showCanvas = True, exitOrigin = (Num 0.5, Num 0.5),
         exitTarget = None, navigations = [], renderedPhase = Exiting,
         activeCanvas = Some Hide, runs = [Reveal, Hide]\<rparr>) \<noteq> Visible"
  by (simp add: handleExitComplete_def)

text \<open>
  C8, amended. If the completion of the exiting run finds no target in the slot,
  navigation is skipped and the state of the component is left as it is: the phase is
  not changed, so it stays exiting.
\<close>

theorem handleExitComplete_no_target:
  "exitTarget s = None \<Longrightarrow>
     handleExitComplete s = s \<and> navigations (handleExitComplete s) = navigations s
     \<and> phase (handleExitComplete s) = phase s"
  by (simp add: handleExitComplete_def)

theorem handleExitComplete_no_target_witness:
  "exitTarget \<lparr>phase = Exiting, showContent = False, showCanvas = True, exitOrigin = (Num 0.5, Num 0.5),
               exitTarget = None, navigations = [''/x''], renderedPhase = Exiting,
               activeCanvas = Some Hide, runs = [Reveal, Hide]\<rparr> = None
   \<and> navigations (handleExitComplete
        \<lparr>phase = Exiting, showContent = False, showCanvas = True, exitOrigin = (Num 0.5, Num 0.5),
         exitTarget = None, navigations = [''/x''], renderedPhase = Exiting,
         activeCanvas = Some Hide, runs = [Reveal, Hide]\<rparr>) = [''/x'']
   \<and> phase (handleExitComplete
        \<lparr>phase = Exiting, showContent = False, showCanvas = True, exitOrigin = (Num 0.5, Num 0.5),
         exitTarget = None, navigations = [''/x''], renderedPhase = Exiting,
         activeCanvas = Some Hide, runs = [Reveal, Hide]\<rparr>) = Exiting"
  using handleExitComplete_no_target
    [of "\<lparr>phase = Exiting, showContent = False, showCanvas = True, exitOrigin = (Num 0.5, Num 0.5),
         exitTarget = None, navigations = [''/x''], renderedPhase = Exiting,
         activeCanvas = Some Hide, runs = [Reveal, Hide]\<rparr>"]
  by simp

section \<open>Properties of a canvas run\<close>

subsection \<open>Frames, directional version\<close>

lemma animate_alt:
  "animate p e t c =
     c\<lparr>startTime := Some (case startTime c of None \<Rightarrow> t | Some t0 \<Rightarrow> t0),
       ops := ops c @ [ClearRect 0 0 (innerWidth e) (innerHeight e), SetFillStyle (lightColor p),
                       FillRect 0 0 (innerWidth e) (innerHeight e)]
                @ concat (map (drawTile p (progressAt c t)) (hexes c)),
       partialFired := (partialFired c \<or> fires p c t),
       frameRequested := (progressAt c t < 1),
       tasks := tasks c @ [(if fires p c t \<and> onPartialReveal p then [OnPartialReveal] else [])
                           @ (if progressAt c t < 1 then []
                              else if onComplete p then [OnComplete] else [])]\<rparr>"
  by (simp only: animate_def Let_def progressAt_def fires_def)

lemma animate_startTime:
  "startTime (animate p e t c) = Some (case startTime c of None \<Rightarrow> t | Some t0 \<Rightarrow> t0)"
  by (simp add: animate_alt)

lemma animate_frameRequested:
  "frameRequested (animate p e t c) \<longleftrightarrow> progressAt c t < 1"
  by (simp add: animate_alt)

lemma animate_partialFired:
  "partialFired (animate p e t c) \<longleftrightarrow> partialFired c \<or> fires p c t"
  by (simp add: animate_alt)

lemma animate_callbacks:
  "callbacks (animate p e t c) =
     callbacks c @ (if fires p c t \<and> onPartialReveal p then [OnPartialReveal] else [])
       @ (if progressAt c t < 1 then [] else if onComplete p then [OnComplete] else [])"
  by (simp add: animate_alt callbacks_def)

lemma fires_fresh: "fires p c t \<Longrightarrow> \<not> partialFired c \<and> direction p = Reveal"
  by (simp add: fires_def)

lemma fires_at_end:
  "\<not> progressAt c t < 1 \<Longrightarrow> fires p c t \<longleftrightarrow> \<not> partialFired c \<and> direction p = Reveal"
  by (auto simp add: fires_def progressAt_def min_def split: if_splits)

lemma runFrames_idle: "\<not> frameRequested c \<Longrightarrow> runFrames p e ts c = c"
  by (cases ts) simp_all

text \<open>
  What a sequence of frames adds to the callbacks: nothing, or the partial-reveal
  callback (if this run can still fire it), or that followed by the completion callback.
\<close>

lemma runFrames_shape:
  "\<exists>new. callbacks (runFrames p e ts c) = callbacks c @ new \<and>
     (new = [] \<or>
      new = (if direction p = Reveal \<and> onPartialReveal p \<and> \<not> partialFired c
             then [OnPartialReveal] else []) \<or>
      new = (if direction p = Reveal \<and> onPartialReveal p \<and> \<not> partialFired c
             then [OnPartialReveal] else []) @ (if onComplete p then [OnComplete] else []))"
proof (induction ts arbitrary: c)
  case Nil
  then show ?case by simp
next
  case (Cons t ts)
  show ?case
  proof (cases "frameRequested c")
    case False
    then show ?thesis by simp
  next
    case True
    let ?c = "animate p e t c"
    show ?thesis
    proof (cases "progressAt c t < 1")
      case False
      then have "runFrames p e (t # ts) c = ?c"
        using True by (simp add: runFrames_idle animate_frameRequested)
      then show ?thesis
        using False by (simp add: animate_callbacks fires_at_end)
    next
      case lt: True
      from Cons.IH [of ?c] obtain new where
        n: "callbacks (runFrames p e ts ?c) = callbacks ?c @ new"
           "new = [] \<or>
            new = (if direction p = Reveal \<and> onPartialReveal p \<and> \<not> partialFired ?c
                   then [OnPartialReveal] else []) \<or>
            new = (if direction p = Reveal \<and> onPartialReveal p \<and> \<not> partialFired ?c
                   then [OnPartialReveal] else []) @ (if onComplete p then [OnComplete] else [])"
        by blast
      have "runFrames p e (t # ts) c = runFrames p e ts ?c"
        using True by simp
      then show ?thesis
        using n lt
        by (auto simp add: animate_callbacks animate_partialFired dest: fires_fresh
            split: if_splits)
    qed
  qed
qed

lemma progressAt_done:
  "startTime c = Some t0 \<Longrightarrow> DURATION \<le> t - t0 \<Longrightarrow> \<not> progressAt c t < 1"
  by (simp add: progressAt_def DURATION_def min_def)

lemma progressAt_running:
  "startTime c = Some t0 \<Longrightarrow> \<not> DURATION \<le> t - t0 \<Longrightarrow> progressAt c t < 1"
  by (simp add: progressAt_def DURATION_def min_def)

lemma progressAt_first: "startTime c = None \<Longrightarrow> progressAt c t < 1"
  by (simp add: progressAt_def DURATION_def)

text \<open>
  Frames that reach the duration end the run: no frame stays requested, and the
  completion callback, when supplied, is the last callback invoked.
\<close>

lemma runFrames_reaches:
  "frameRequested c \<Longrightarrow> startTime c = Some t0 \<Longrightarrow> \<exists>t\<in>set ts. DURATION \<le> t - t0 \<Longrightarrow>
     \<not> frameRequested (runFrames p e ts c) \<and>
     (onComplete p \<longrightarrow> (\<exists>pre. callbacks (runFrames p e ts c) = pre @ [OnComplete]))"
proof (induction ts arbitrary: c)
  case Nil
  then show ?case by simp
next
  case (Cons t ts)
  let ?c = "animate p e t c"
  show ?case
  proof (cases "DURATION \<le> t - t0")
    case True
    then have d: "\<not> progressAt c t < 1"
      using Cons.prems(2) by (simp add: progressAt_done)
    then have "runFrames p e (t # ts) c = ?c"
      using Cons.prems(1) by (simp add: runFrames_idle animate_frameRequested)
    then show ?thesis
      using d by (simp add: animate_callbacks animate_frameRequested)
  next
    case False
    then have r: "progressAt c t < 1"
      using Cons.prems(2) by (simp add: progressAt_running)
    have "\<exists>t\<in>set ts. DURATION \<le> t - t0"
      using Cons.prems(3) False by auto
    moreover have "frameRequested ?c"
      using r by (simp add: animate_frameRequested)
    moreover have "startTime ?c = Some t0"
      using Cons.prems(2) by (simp add: animate_startTime)
    ultimately have "\<not> frameRequested (runFrames p e ts ?c) \<and>
         (onComplete p \<longrightarrow> (\<exists>pre. callbacks (runFrames p e ts ?c) = pre @ [OnComplete]))"
      using Cons.IH [of ?c] by blast
    then show ?thesis
      using Cons.prems(1) by simp
  qed
qed

lemma runFrames_reaches_first:
  assumes "frameRequested c" and "startTime c = None"
    and "\<exists>t\<in>set ts. DURATION \<le> t - hd ts"
  shows "\<not> frameRequested (runFrames p e ts c) \<and>
         (onComplete p \<longrightarrow> (\<exists>pre. callbacks (runFrames p e ts c) = pre @ [OnComplete]))"
proof (cases ts)
  case Nil
  then show ?thesis using assms by simp
next
  case (Cons t ts')
  let ?c = "animate p e t c"
  have r: "progressAt c t < 1"
    using assms(2) by (rule progressAt_first)
  have "\<not> DURATION \<le> t - t"
    by (simp add: DURATION_def)
  then have "\<exists>t'\<in>set ts'. DURATION \<le> t' - t"
    using assms(3) Cons by auto
  moreover have "frameRequested ?c"
    using r by (simp add: animate_frameRequested)
  moreover have "startTime ?c = Some t"
    using assms(2) by (simp add: animate_startTime)
  ultimately have "\<not> frameRequested (runFrames p e ts' ?c) \<and>
         (onComplete p \<longrightarrow> (\<exists>pre. callbacks (runFrames p e ts' ?c) = pre @ [OnComplete]))"
    using runFrames_reaches [of ?c t ts' p e] by blast
  then show ?thesis
    using assms(1) Cons by simp
qed

subsection \<open>The state in which the frames start\<close>

lemma startRun_animated:
  assumes "isActive p" and "canvasPresent e" and "ctxPresent e"
    and "\<not> prefersReducedMotion e"
  shows "frameRequested (fireTimeout p (startRun p e mounted))"
    and "startTime (fireTimeout p (startRun p e mounted)) = None"
  using assms by (simp_all add: startRun_def fireTimeout_def mounted_def Let_def)

lemma startRun_not_reduced:
  assumes "\<not> prefersReducedMotion e"
  shows "tasks (fireTimeout p (startRun p e mounted)) = []"
    and "\<not> partialFired (fireTimeout p (startRun p e mounted))"
  using assms by (simp_all add: startRun_def fireTimeout_def mounted_def Let_def)

lemma startRun_reduced:
  assumes "isActive p" and "canvasPresent e" and "ctxPresent e" and "prefersReducedMotion e"
  shows "\<not> frameRequested (fireTimeout p (startRun p e mounted))"
    and "tasks (fireTimeout p (startRun p e mounted)) =
           [(if onPartialReveal p then [OnPartialReveal] else [])
            @ (if onComplete p then [OnComplete] else [])]"
    and "startTime (fireTimeout p (startRun p e mounted)) = None"
    and "timer (startRun p e mounted) = Some (50, FireBoth)"
    and "ops (fireTimeout p (startRun p e mounted)) =
           [SetSize (innerWidth e * dpr_of e) (innerHeight e * dpr_of e),
            Scale (dpr_of e) (dpr_of e)]"
    and "hexes (fireTimeout p (startRun p e mounted)) = calculateDelays (rnd e) (generateHexGrid (innerWidth e) (innerHeight e))
             (innerWidth e) (if direction p = Reveal then Ltr else Rtl)"
  using assms by (simp_all add: startRun_def fireTimeout_def mounted_def Let_def)

lemma startRun_aborted:
  assumes "\<not> isActive p \<or> \<not> canvasPresent e \<or> \<not> ctxPresent e"
  shows "\<not> frameRequested (fireTimeout p (startRun p e mounted))"
    and "tasks (fireTimeout p (startRun p e mounted)) = []"
    and "hexes (fireTimeout p (startRun p e mounted)) = []"
    and "timer (fireTimeout p (startRun p e mounted)) = None"
    and "startTime (fireTimeout p (startRun p e mounted)) = None"
    and "ops (fireTimeout p (startRun p e mounted)) =
           (if isActive p \<and> canvasPresent e
            then [SetSize (innerWidth e * dpr_of e) (innerHeight e * dpr_of e)] else [])"
  using assms by (auto simp add: startRun_def fireTimeout_def mounted_def Let_def)

lemma run_reduced:
  assumes "isActive p" and "canvasPresent e" and "ctxPresent e" and "prefersReducedMotion e"
  shows "run p e ticks = fireTimeout p (startRun p e mounted)"
  using startRun_reduced(1) [OF assms] by (simp add: run_def runFrames_idle)

lemma run_aborted:
  assumes "\<not> isActive p \<or> \<not> canvasPresent e \<or> \<not> ctxPresent e"
  shows "run p e ticks = fireTimeout p (startRun p e mounted)"
  using startRun_aborted(1) [OF assms] by (simp add: run_def runFrames_idle)

text \<open>The callbacks of a whole run without reduced motion.\<close>

lemma run_shape:
  assumes "\<not> prefersReducedMotion e"
  shows "callbacks (run p e ticks) = [] \<or>
         callbacks (run p e ticks) =
           (if direction p = Reveal \<and> onPartialReveal p then [OnPartialReveal] else []) \<or>
         callbacks (run p e ticks) =
           (if direction p = Reveal \<and> onPartialReveal p then [OnPartialReveal] else [])
           @ (if onComplete p then [OnComplete] else [])"
  using runFrames_shape [of p e ticks "fireTimeout p (startRun p e mounted)"]
    startRun_not_reduced [OF assms, of p]
  by (auto simp add: run_def callbacks_def)

lemma run_completes:
  assumes "isActive p" and "canvasPresent e" and "ctxPresent e"
    and "\<not> prefersReducedMotion e" and "onComplete p"
    and "\<exists>t\<in>set ticks. DURATION \<le> t - hd ticks"
  shows "callbacks (run p e ticks) =
           (if direction p = Reveal \<and> onPartialReveal p then [OnPartialReveal] else [])
           @ [OnComplete]"
proof -
  obtain pre where "callbacks (run p e ticks) = pre @ [OnComplete]"
    using runFrames_reaches_first [OF startRun_animated [OF assms(1-4)] assms(6), of p e]
      assms(5)
    by (auto simp add: run_def)
  then show ?thesis
    using run_shape [OF assms(4), of p ticks] assms(5) by (auto split: if_splits)
qed

subsection \<open>Frames, radial version\<close>

lemma animate_radial_alt:
  "animate_radial p e t c =
     c\<lparr>startTime := Some (case startTime c of None \<Rightarrow> t | Some t0 \<Rightarrow> t0),
       ops := ops c @ [ClearRect 0 0 (innerWidth e) (innerHeight e)]
                @ concat (map (drawTile_radial p (progressAt_radial c t)) (hexes c)),
       partialFired := (partialFired c \<or> fires_radial p c t),
       frameRequested := (progressAt_radial c t < 1),
       tasks := tasks c @ [(if fires_radial p c t \<and> onPartialReveal p then [OnPartialReveal] else [])
                           @ (if progressAt_radial c t < 1 then []
                              else if onComplete p then [OnComplete] else [])]\<rparr>"
  by (simp only: animate_radial_def Let_def progressAt_radial_def fires_radial_def)

lemma animate_radial_startTime:
  "startTime (animate_radial p e t c) = Some (case startTime c of None \<Rightarrow> t | Some t0 \<Rightarrow> t0)"
  by (simp add: animate_radial_alt)

lemma animate_radial_frameRequested:
  "frameRequested (animate_radial p e t c) \<longleftrightarrow> progressAt_radial c t < 1"
  by (simp add: animate_radial_alt)

lemma animate_radial_partialFired:
  "partialFired (animate_radial p e t c) \<longleftrightarrow> partialFired c \<or> fires_radial p c t"
  by (simp add: animate_radial_alt)

lemma animate_radial_callbacks:
  "callbacks (animate_radial p e t c) =
     callbacks c @ (if fires_radial p c t \<and> onPartialReveal p then [OnPartialReveal] else [])
       @ (if progressAt_radial c t < 1 then [] else if onComplete p then [OnComplete] else [])"
  by (simp add: animate_radial_alt callbacks_def)

lemma fires_radial_fresh: "fires_radial p c t \<Longrightarrow> \<not> partialFired c \<and> direction p = Reveal"
  by (simp add: fires_radial_def)

lemma fires_radial_at_end:
  "\<not> progressAt_radial c t < 1 \<Longrightarrow> fires_radial p c t \<longleftrightarrow> \<not> partialFired c \<and> direction p = Reveal"
  by (auto simp add: fires_radial_def progressAt_radial_def min_def split: if_splits)

lemma runFrames_radial_idle: "\<not> frameRequested c \<Longrightarrow> runFrames_radial p e ts c = c"
  by (cases ts) simp_all

text \<open>
  What a sequence of frames adds to the callbacks: nothing, or the partial-reveal
  callback (if this run can still fire it), or that followed by the completion callback.
\<close>

lemma runFrames_radial_shape:
  "\<exists>new. callbacks (runFrames_radial p e ts c) = callbacks c @ new \<and>
     (new = [] \<or>
      new = (if direction p = Reveal \<and> onPartialReveal p \<and> \<not> partialFired c
             then [OnPartialReveal] else []) \<or>
      new = (if direction p = Reveal \<and> onPartialReveal p \<and> \<not> partialFired c
             then [OnPartialReveal] else []) @ (if onComplete p then [OnComplete] else []))"
proof (induction ts arbitrary: c)
  case Nil
  then show ?case by simp
next
  case (Cons t ts)
  show ?case
  proof (cases "frameRequested c")
    case False
    then show ?thesis by simp
  next
    case True
    let ?c = "animate_radial p e t c"
    show ?thesis
    proof (cases "progressAt_radial c t < 1")
      case False
      then have "runFrames_radial p e (t # ts) c = ?c"
        using True by (simp add: runFrames_radial_idle animate_radial_frameRequested)
      then show ?thesis
        using False by (simp add: animate_radial_callbacks fires_radial_at_end)
    next
      case lt: True
      from Cons.IH [of ?c] obtain new where
        n: "callbacks (runFrames_radial p e ts ?c) = callbacks ?c @ new"
           "new = [] \<or>
            new = (if direction p = Reveal \<and> onPartialReveal p \<and> \<not> partialFired ?c
                   then [OnPartialReveal] else []) \<or>
            new = (if direction p = Reveal \<and> onPartialReveal p \<and> \<not> partialFired ?c
                   then [OnPartialReveal] else []) @ (if onComplete p then [OnComplete] else [])"
        by blast
      have "runFrames_radial p e (t # ts) c = runFrames_radial p e ts ?c"
        using True by simp
      then show ?thesis
        using n lt
        by (auto simp add: animate_radial_callbacks animate_radial_partialFired dest: fires_radial_fresh
            split: if_splits)
    qed
  qed
qed

lemma progressAt_radial_done:
  "startTime c = Some t0 \<Longrightarrow> DURATION_radial \<le> t - t0 \<Longrightarrow> \<not> progressAt_radial c t < 1"
  by (simp add: progressAt_radial_def DURATION_radial_def min_def)

lemma progressAt_radial_running:
  "startTime c = Some t0 \<Longrightarrow> \<not> DURATION_radial \<le> t - t0 \<Longrightarrow> progressAt_radial c t < 1"
  by (simp add: progressAt_radial_def DURATION_radial_def min_def)

lemma progressAt_radial_first: "startTime c = None \<Longrightarrow> progressAt_radial c t < 1"
  by (simp add: progressAt_radial_def DURATION_radial_def)

text \<open>
  Frames that reach the duration end the run: no frame stays requested, and the
  completion callback, when supplied, is the last callback invoked.
\<close>

lemma runFrames_radial_reaches:
  "frameRequested c \<Longrightarrow> startTime c = Some t0 \<Longrightarrow> \<exists>t\<in>set ts. DURATION_radial \<le> t - t0 \<Longrightarrow>
     \<not> frameRequested (runFrames_radial p e ts c) \<and>
     (onComplete p \<longrightarrow> (\<exists>pre. callbacks (runFrames_radial p e ts c) = pre @ [OnComplete]))"
proof (induction ts arbitrary: c)
  case Nil
  then show ?case by simp
next
  case (Cons t ts)
  let ?c = "animate_radial p e t c"
  show ?case
  proof (cases "DURATION_radial \<le> t - t0")
    case True
    then have d: "\<not> progressAt_radial c t < 1"
      using Cons.prems(2) by (simp add: progressAt_radial_done)
    then have "runFrames_radial p e (t # ts) c = ?c"
      using Cons.prems(1) by (simp add: runFrames_radial_idle animate_radial_frameRequested)
    then show ?thesis
      using d by (simp add: animate_radial_callbacks animate_radial_frameRequested)
  next
    case False
    then have r: "progressAt_radial c t < 1"
      using Cons.prems(2) by (simp add: progressAt_radial_running)
    have "\<exists>t\<in>set ts. DURATION_radial \<le> t - t0"
      using Cons.prems(3) False by auto
    moreover have "frameRequested ?c"
      using r by (simp add: animate_radial_frameRequested)
    moreover have "startTime ?c = Some t0"
      using Cons.prems(2) by (simp add: animate_radial_startTime)
    ultimately have "\<not> frameRequested (runFrames_radial p e ts ?c) \<and>
         (onComplete p \<longrightarrow> (\<exists>pre. callbacks (runFrames_radial p e ts ?c) = pre @ [OnComplete]))"
      using Cons.IH [of ?c] by blast
    then show ?thesis
      using Cons.prems(1) by simp
  qed
qed

lemma runFrames_radial_reaches_first:
  assumes "frameRequested c" and "startTime c = None"
    and "\<exists>t\<in>set ts. DURATION_radial \<le> t - hd ts"
  shows "\<not> frameRequested (runFrames_radial p e ts c) \<and>
         (onComplete p \<longrightarrow> (\<exists>pre. callbacks (runFrames_radial p e ts c) = pre @ [OnComplete]))"
proof (cases ts)
  case Nil
  then show ?thesis using assms by simp
next
  case (Cons t ts')
  let ?c = "animate_radial p e t c"
  have r: "progressAt_radial c t < 1"
    using assms(2) by (rule progressAt_radial_first)
  have "\<not> DURATION_radial \<le> t - t"
    by (simp add: DURATION_radial_def)
  then have "\<exists>t'\<in>set ts'. DURATION_radial \<le> t' - t"
    using assms(3) Cons by auto
  moreover have "frameRequested ?c"
    using r by (simp add: animate_radial_frameRequested)
  moreover have "startTime ?c = Some t"
    using assms(2) by (simp add: animate_radial_startTime)
  ultimately have "\<not> frameRequested (runFrames_radial p e ts' ?c) \<and>
         (onComplete p \<longrightarrow> (\<exists>pre. callbacks (runFrames_radial p e ts' ?c) = pre @ [OnComplete]))"
    using runFrames_radial_reaches [of ?c t ts' p e] by blast
  then show ?thesis
    using assms(1) Cons by simp
qed

subsection \<open>The state in which the frames start, radial version\<close>

lemma startRun_radial_animated:
  assumes "isActive p" and "canvasPresent e" and "ctxPresent e"
    and "\<not> prefersReducedMotion e"
  shows "frameRequested (fireTimeout p (startRun_radial p e mounted))"
    and "startTime (fireTimeout p (startRun_radial p e mounted)) = None"
  using assms by (simp_all add: startRun_radial_def fireTimeout_def mounted_def Let_def)

lemma startRun_radial_not_reduced:
  assumes "\<not> prefersReducedMotion e"
  shows "tasks (fireTimeout p (startRun_radial p e mounted)) = []"
    and "\<not> partialFired (fireTimeout p (startRun_radial p e mounted))"
  using assms by (simp_all add: startRun_radial_def fireTimeout_def mounted_def Let_def)

lemma startRun_radial_reduced:
  assumes "isActive p" and "canvasPresent e" and "ctxPresent e" and "prefersReducedMotion e"
  shows "\<not> frameRequested (fireTimeout p (startRun_radial p e mounted))"
    and "tasks (fireTimeout p (startRun_radial p e mounted)) =
           [(if onPartialReveal p then [OnPartialReveal] else [])
            @ (if onComplete p then [OnComplete] else [])]"
    and "startTime (fireTimeout p (startRun_radial p e mounted)) = None"
    and "timer (startRun_radial p e mounted) = Some (50, FireBoth)"
    and "ops (fireTimeout p (startRun_radial p e mounted)) =
           [SetSize (innerWidth e * dpr_of e) (innerHeight e * dpr_of e),
            Scale (dpr_of e) (dpr_of e)]"
    and "hexes (fireTimeout p (startRun_radial p e mounted)) = calculateDelays_radial (rnd e) (generateHexGrid_radial (innerWidth e) (innerHeight e))
             (innerWidth e) (innerHeight e) (js_mul (originX p) (Num (innerWidth e)))
             (js_mul (originY p) (Num (innerHeight e)))"
  using assms by (simp_all add: startRun_radial_def fireTimeout_def mounted_def Let_def)

lemma startRun_radial_aborted:
  assumes "\<not> isActive p \<or> \<not> canvasPresent e \<or> \<not> ctxPresent e"
  shows "\<not> frameRequested (fireTimeout p (startRun_radial p e mounted))"
    and "tasks (fireTimeout p (startRun_radial p e mounted)) = []"
    and "hexes (fireTimeout p (startRun_radial p e mounted)) = []"
    and "timer (fireTimeout p (startRun_radial p e mounted)) = None"
    and "startTime (fireTimeout p (startRun_radial p e mounted)) = None"
    and "ops (fireTimeout p (startRun_radial p e mounted)) =
           (if isActive p \<and> canvasPresent e
            then [SetSize (innerWidth e * dpr_of e) (innerHeight e * dpr_of e)] else [])"
  using assms by (auto simp add: startRun_radial_def fireTimeout_def mounted_def Let_def)

lemma run_radial_reduced:
  assumes "isActive p" and "canvasPresent e" and "ctxPresent e" and "prefersReducedMotion e"
  shows "run_radial p e ticks = fireTimeout p (startRun_radial p e mounted)"
  using startRun_radial_reduced(1) [OF assms] by (simp add: run_radial_def runFrames_radial_idle)

lemma run_radial_aborted:
  assumes "\<not> isActive p \<or> \<not> canvasPresent e \<or> \<not> ctxPresent e"
  shows "run_radial p e ticks = fireTimeout p (startRun_radial p e mounted)"
  using startRun_radial_aborted(1) [OF assms] by (simp add: run_radial_def runFrames_radial_idle)

text \<open>The callbacks of a whole run without reduced motion.\<close>

lemma run_radial_shape:
  assumes "\<not> prefersReducedMotion e"
  shows "callbacks (run_radial p e ticks) = [] \<or>
         callbacks (run_radial p e ticks) =
           (if direction p = Reveal \<and> onPartialReveal p then [OnPartialReveal] else []) \<or>
         callbacks (run_radial p e ticks) =
           (if direction p = Reveal \<and> onPartialReveal p then [OnPartialReveal] else [])
           @ (if onComplete p then [OnComplete] else [])"
  using runFrames_radial_shape [of p e ticks "fireTimeout p (startRun_radial p e mounted)"]
    startRun_radial_not_reduced [OF assms, of p]
  by (auto simp add: run_radial_def callbacks_def)

lemma run_radial_completes:
  assumes "isActive p" and "canvasPresent e" and "ctxPresent e"
    and "\<not> prefersReducedMotion e" and "onComplete p"
    and "\<exists>t\<in>set ticks. DURATION_radial \<le> t - hd ticks"
  shows "callbacks (run_radial p e ticks) =
           (if direction p = Reveal \<and> onPartialReveal p then [OnPartialReveal] else [])
           @ [OnComplete]"
proof -
  obtain pre where "callbacks (run_radial p e ticks) = pre @ [OnComplete]"
    using runFrames_radial_reaches_first [OF startRun_radial_animated [OF assms(1-4)] assms(6), of p e]
      assms(5)
    by (auto simp add: run_radial_def)
  then show ?thesis
    using run_radial_shape [OF assms(4), of p ticks] assms(5) by (auto split: if_splits)
qed

section \<open>Properties of the grid and of the delay field\<close>

lemma length_calculateDelays_from [simp]:
  "length (calculateDelays_from k rs w d hs) = length hs"
  by (induction hs arbitrary: k) simp_all

lemma length_calculateDelays_radial_from [simp]:
  "length (calculateDelays_radial_from k rs w h ox oy hs) = length hs"
  by (induction hs arbitrary: k) simp_all

lemma calculateDelays_from_nth:
  "i < length hs \<Longrightarrow>
     calculateDelays_from k rs w d hs ! i = (hs ! i)\<lparr>delay := hexDelay w d (rs (k + i)) (hs ! i)\<rparr>"
proof (induction hs arbitrary: k i)
  case Nil
  then show ?case by simp
next
  case (Cons h hs)
  then show ?case by (cases i) simp_all
qed

lemma grid_length:
  "length (concat (map (\<lambda>row. map (f row) [0..<c]) [0..<r])) = r * c"
  by (induction r) simp_all

lemma grid_first_row:
  assumes "0 < r" and "col < c"
  shows "concat (map (\<lambda>row. map (f row) [0..<c]) [0..<r]) ! col = f 0 col"
proof -
  have "[0..<r] = 0 # [1..<r]"
    using assms(1) by (simp add: upt_conv_Cons)
  then show ?thesis
    using assms(2) by (simp add: nth_append)
qed

lemma generateHexGrid_length:
  "length (generateHexGrid width height) =
     nat (\<lceil>height / (sqrt 3 * HEX_SIZE * 0.88)\<rceil> + 8) * nat (\<lceil>width / (HEX_SIZE * 2 * 0.72)\<rceil> + 8)"
  unfolding generateHexGrid_def Let_def by (rule grid_length)

lemma generateHexGrid_radial_length:
  "length (generateHexGrid_radial width height) =
     nat (\<lceil>height / (sqrt 3 * HEX_SIZE_radial + 2)\<rceil> + 4)
     * nat (\<lceil>width / (HEX_SIZE_radial * 2 * 0.75 + 2)\<rceil> + 4)"
  unfolding generateHexGrid_radial_def Let_def by (rule grid_length)

lemma ceiling_plus_8: "\<lceil>x::real\<rceil> + 8 \<le> 0 \<longleftrightarrow> x \<le> - 8"
proof -
  have "\<lceil>x\<rceil> + 8 \<le> 0 \<longleftrightarrow> \<lceil>x\<rceil> \<le> - 8" by linarith
  also have "\<dots> \<longleftrightarrow> x \<le> - 8" by (simp add: ceiling_le_iff)
  finally show ?thesis .
qed

lemma ceiling_plus_4: "\<lceil>x::real\<rceil> + 4 \<le> 0 \<longleftrightarrow> x \<le> - 4"
proof -
  have "\<lceil>x\<rceil> + 4 \<le> 0 \<longleftrightarrow> \<lceil>x\<rceil> \<le> - 4" by linarith
  also have "\<dots> \<longleftrightarrow> x \<le> - 4" by (simp add: ceiling_le_iff)
  finally show ?thesis .
qed

lemma nat_mult_eq_0: "nat a * nat b = 0 \<longleftrightarrow> a \<le> 0 \<or> b \<le> 0"
  by auto

lemma generateHexGrid_empty_iff:
  "generateHexGrid width height = [] \<longleftrightarrow>
     width \<le> - 8 * (HEX_SIZE * 2 * 0.72) \<or> height \<le> - 8 * (sqrt 3 * HEX_SIZE * 0.88)"
proof -
  have w: "width / (HEX_SIZE * 2 * 0.72) \<le> - 8 \<longleftrightarrow> width \<le> - 8 * (HEX_SIZE * 2 * 0.72)"
    by (simp add: HEX_SIZE_def field_simps)
  have "0 < sqrt 3 * HEX_SIZE * 0.88"
    by (simp add: HEX_SIZE_def)
  then have h: "height / (sqrt 3 * HEX_SIZE * 0.88) \<le> - 8
                \<longleftrightarrow> height \<le> - 8 * (sqrt 3 * HEX_SIZE * 0.88)"
    by (simp only: pos_divide_le_eq)
  have "generateHexGrid width height = [] \<longleftrightarrow> length (generateHexGrid width height) = 0"
    by simp
  also have "\<dots> \<longleftrightarrow> \<lceil>height / (sqrt 3 * HEX_SIZE * 0.88)\<rceil> + 8 \<le> 0
                 \<or> \<lceil>width / (HEX_SIZE * 2 * 0.72)\<rceil> + 8 \<le> 0"
    by (simp only: generateHexGrid_length nat_mult_eq_0)
  also have "\<dots> \<longleftrightarrow> width \<le> - 8 * (HEX_SIZE * 2 * 0.72)
                 \<or> height \<le> - 8 * (sqrt 3 * HEX_SIZE * 0.88)"
    by (simp only: ceiling_plus_8 w h) blast
  finally show ?thesis .
qed

lemma generateHexGrid_radial_empty_iff:
  "generateHexGrid_radial width height = [] \<longleftrightarrow>
     width \<le> - 4 * (HEX_SIZE_radial * 2 * 0.75 + 2) \<or> height \<le> - 4 * (sqrt 3 * HEX_SIZE_radial + 2)"
proof -
  have w: "width / (HEX_SIZE_radial * 2 * 0.75 + 2) \<le> - 4
           \<longleftrightarrow> width \<le> - 4 * (HEX_SIZE_radial * 2 * 0.75 + 2)"
    by (simp add: HEX_SIZE_radial_def field_simps)
  have "0 \<le> sqrt 3 * HEX_SIZE_radial"
    by (simp add: HEX_SIZE_radial_def)
  then have "0 < sqrt 3 * HEX_SIZE_radial + 2"
    by linarith
  then have h: "height / (sqrt 3 * HEX_SIZE_radial + 2) \<le> - 4
                \<longleftrightarrow> height \<le> - 4 * (sqrt 3 * HEX_SIZE_radial + 2)"
    by (simp only: pos_divide_le_eq)
  have "generateHexGrid_radial width height = []
        \<longleftrightarrow> length (generateHexGrid_radial width height) = 0"
    by simp
  also have "\<dots> \<longleftrightarrow> \<lceil>height / (sqrt 3 * HEX_SIZE_radial + 2)\<rceil> + 4 \<le> 0
                 \<or> \<lceil>width / (HEX_SIZE_radial * 2 * 0.75 + 2)\<rceil> + 4 \<le> 0"
    by (simp only: generateHexGrid_radial_length nat_mult_eq_0)
  also have "\<dots> \<longleftrightarrow> width \<le> - 4 * (HEX_SIZE_radial * 2 * 0.75 + 2)
                 \<or> height \<le> - 4 * (sqrt 3 * HEX_SIZE_radial + 2)"
    by (simp only: ceiling_plus_4 w h) blast
  finally show ?thesis .
qed

lemma rows_pos: "0 \<le> height \<Longrightarrow> 0 < nat (\<lceil>height / (sqrt 3 * HEX_SIZE * 0.88)\<rceil> + 8)"
proof -
  assume "0 \<le> height"
  then have "0 \<le> height / (sqrt 3 * HEX_SIZE * 0.88)"
    by (simp add: HEX_SIZE_def)
  then have "0 \<le> \<lceil>height / (sqrt 3 * HEX_SIZE * 0.88)\<rceil>"
    by simp
  then show ?thesis by linarith
qed

subsection \<open>The range of a delay\<close>

lemma clamp_js: "0 \<le> c \<Longrightarrow> js_max (Num 0) (js_min (Num c) v) = NaN
    \<or> inRange c (js_max (Num 0) (js_min (Num c) v))"
  by (cases v) (simp_all add: inRange_def)

lemma clamp_js_Num: "0 \<le> c \<Longrightarrow> inRange c (js_max (Num 0) (js_min (Num c) (Num v)))"
  by (simp add: inRange_def)

lemma not_inRange: "c < v \<Longrightarrow> \<not> inRange c (Num v)"
  by (simp add: inRange_def)

lemma js_div_finite: "b \<noteq> 0 \<Longrightarrow> js_div (Num a) (Num b) = Num (a / b)"
  by simp

lemma js_sub_Num: "js_sub (Num a) (Num b) = Num (a - b)"
  by (simp add: js_sub_def)

lemma hexDelay_NaN_or_inRange: "hexDelay w d r h = NaN \<or> inRange 0.95 (hexDelay w d r h)"
  unfolding hexDelay_def Let_def by (rule clamp_js) simp

lemma hexDelay_radial_NaN_or_inRange:
  "hexDelay_radial w hh ox oy r h = NaN \<or> inRange 1 (hexDelay_radial w hh ox oy r h)"
  unfolding hexDelay_radial_def Let_def by (rule clamp_js) simp

lemma hexDelay_finite:
  assumes "w \<noteq> - 8 * HEX_SIZE"
  shows "inRange 0.95 (hexDelay w d r h)"
proof -
  have "w + HEX_SIZE * 4 - - HEX_SIZE * 4 \<noteq> 0"
    using assms by linarith
  then have nx: "js_div (Num (hx h - - HEX_SIZE * 4)) (Num (w + HEX_SIZE * 4 - - HEX_SIZE * 4))
      = Num ((hx h - - HEX_SIZE * 4) / (w + HEX_SIZE * 4 - - HEX_SIZE * 4))"
    by (rule js_div_finite)
  show ?thesis
  proof (cases d)
    case Ltr
    show ?thesis
      unfolding hexDelay_def Let_def nx Ltr
      by (simp only: if_True simp_thms js_add.simps js_mul.simps) (rule clamp_js_Num, simp)
  next
    case Rtl
    show ?thesis
      unfolding hexDelay_def Let_def nx Rtl
      by (simp only: if_False wave.distinct simp_thms js_sub_def js_neg.simps js_add.simps
          js_mul.simps) (rule clamp_js_Num, simp)
  qed
qed

lemma sum_squares_nonneg: "\<not> (a::real) * a + b * b < 0"
  by (simp add: not_less)

lemma hexDelay_radial_finite:
  assumes "w \<noteq> 0 \<or> hh \<noteq> 0"
  shows "inRange 1 (hexDelay_radial w hh (Num ox) (Num oy) r h)"
proof -
  have "w * w + hh * hh \<noteq> 0"
    using assms by (simp add: sum_squares_eq_zero_iff)
  then have "sqrt (w * w + hh * hh) \<noteq> 0"
    by simp
  then have nd: "js_div (Num (sqrt ((hx h - ox) * (hx h - ox) + (hy h - oy) * (hy h - oy))))
      (Num (sqrt (w * w + hh * hh)))
      = Num (sqrt ((hx h - ox) * (hx h - ox) + (hy h - oy) * (hy h - oy)) / sqrt (w * w + hh * hh))"
    by (rule js_div_finite)
  have d: "js_sqrt (js_add (js_mul (js_sub (Num (hx h)) (Num ox)) (js_sub (Num (hx h)) (Num ox)))
             (js_mul (js_sub (Num (hy h)) (Num oy)) (js_sub (Num (hy h)) (Num oy))))
        = Num (sqrt ((hx h - ox) * (hx h - ox) + (hy h - oy) * (hy h - oy)))"
    by (simp add: js_sub_def sum_squares_nonneg)
  show ?thesis
    unfolding hexDelay_radial_def Let_def d nd
    by (simp only: js_add.simps js_mul.simps) (rule clamp_js_Num, simp)
qed

lemma hexDelay_value:
  assumes "w \<noteq> - 8 * HEX_SIZE"
  shows "hexDelay w Ltr r h =
     Num (max 0 (min 0.95
       ((hx h - - HEX_SIZE * 4) / (w + HEX_SIZE * 4 - - HEX_SIZE * 4) * WAVE_SPREAD
        + sin (hy h * 0.015) * 0.02 + (r - 0.5) * STAGGER_NOISE)))"
proof -
  have "w + HEX_SIZE * 4 - - HEX_SIZE * 4 \<noteq> 0"
    using assms by linarith
  then have nx: "js_div (Num (hx h - - HEX_SIZE * 4)) (Num (w + HEX_SIZE * 4 - - HEX_SIZE * 4))
      = Num ((hx h - - HEX_SIZE * 4) / (w + HEX_SIZE * 4 - - HEX_SIZE * 4))"
    by (rule js_div_finite)
  show ?thesis
    unfolding hexDelay_def Let_def nx
    by (simp only: if_True simp_thms js_add.simps js_mul.simps js_min.simps js_max.simps)
qed

lemma hexDelay_radial_value:
  assumes "w \<noteq> 0 \<or> hh \<noteq> 0"
  shows "hexDelay_radial w hh (Num ox) (Num oy) r h =
     Num (max 0 (min 1
       (sqrt ((hx h - ox) * (hx h - ox) + (hy h - oy) * (hy h - oy)) / sqrt (w * w + hh * hh)
          * WAVE_SPREAD_radial
        + (r - 0.5) * STAGGER_NOISE_radial)))"
proof -
  have "w * w + hh * hh \<noteq> 0"
    using assms by (simp add: sum_squares_eq_zero_iff)
  then have "sqrt (w * w + hh * hh) \<noteq> 0"
    by simp
  then have nd: "js_div (Num (sqrt ((hx h - ox) * (hx h - ox) + (hy h - oy) * (hy h - oy))))
      (Num (sqrt (w * w + hh * hh)))
      = Num (sqrt ((hx h - ox) * (hx h - ox) + (hy h - oy) * (hy h - oy)) / sqrt (w * w + hh * hh))"
    by (rule js_div_finite)
  have d: "js_sqrt (js_add (js_mul (js_sub (Num (hx h)) (Num ox)) (js_sub (Num (hx h)) (Num ox)))
             (js_mul (js_sub (Num (hy h)) (Num oy)) (js_sub (Num (hy h)) (Num oy))))
        = Num (sqrt ((hx h - ox) * (hx h - ox) + (hy h - oy) * (hy h - oy)))"
    by (simp add: js_sub_def sum_squares_nonneg)
  show ?thesis
    unfolding hexDelay_radial_def Let_def d nd
    by (simp only: js_add.simps js_mul.simps js_min.simps js_max.simps)
qed

lemma calculateDelays_from_all:
  assumes "\<And>r h. P (hexDelay w d r h)"
  shows "\<forall>h\<in>set (calculateDelays_from k rs w d hs). P (delay h)"
  by (induction hs arbitrary: k) (simp_all add: assms)

lemma calculateDelays_radial_from_all:
  assumes "\<And>r h. P (hexDelay_radial w hh ox oy r h)"
  shows "\<forall>h\<in>set (calculateDelays_radial_from k rs w hh ox oy hs). P (delay h)"
  by (induction hs arbitrary: k) (simp_all add: assms)

lemma calculateDelays_radial_from_nth:
  "i < length hs \<Longrightarrow>
     calculateDelays_radial_from k rs w hh u v hs ! i
       = (hs ! i)\<lparr>delay := hexDelay_radial w hh u v (rs (k + i)) (hs ! i)\<rparr>"
proof (induction hs arbitrary: k i)
  case Nil
  then show ?case by simp
next
  case (Cons h hs)
  then show ?case by (cases i) simp_all
qed

lemma rows_radial_pos:
  "0 \<le> height \<Longrightarrow> 0 < nat (\<lceil>height / (sqrt 3 * HEX_SIZE_radial + 2)\<rceil> + 4)"
proof -
  assume "0 \<le> height"
  moreover have "0 \<le> sqrt 3 * HEX_SIZE_radial + 2"
    by (simp add: HEX_SIZE_radial_def)
  ultimately have "0 \<le> height / (sqrt 3 * HEX_SIZE_radial + 2)"
    by (rule divide_nonneg_nonneg)
  then have "0 \<le> \<lceil>height / (sqrt 3 * HEX_SIZE_radial + 2)\<rceil>"
    by simp
  then show ?thesis by linarith
qed

text \<open>
  C2, as the specification states it, fails in both versions, for a viewport of 1920 by
  1080 and the draw 0.5 (no jitter at all). Directional, left-to-right wave: the tile of
  row 0 and column 41 lies in the overscan to the right of \<open>maxX\<close>, and its delay is a
  number within the clamp's 0.95 but above the spread 0.5. Radial, origin at the pixel
  (0, 1079), a click in the lower left corner: the tile of row 0 and column 42 is farther
  from the origin than the diagonal is long, and its delay is a number within the
  clamp's 1 but above the spread 0.35.
\<close>

theorem calculateDelays_exceeds_spread_counterexample:
  "41 < length (calculateDelays (\<lambda>k. 0.5) (generateHexGrid 1920 1080) 1920 Ltr)
   \<and> inRange 0.95
        (delay (calculateDelays (\<lambda>k. 0.5) (generateHexGrid 1920 1080) 1920 Ltr ! 41))
   \<and> \<not> inRange WAVE_SPREAD
        (delay (calculateDelays (\<lambda>k. 0.5) (generateHexGrid 1920 1080) 1920 Ltr ! 41))
   \<and> 42 < length (calculateDelays_radial (\<lambda>k. 0.5) (generateHexGrid_radial 1920 1080)
                    1920 1080 (Num 0) (Num 1079))
   \<and> inRange 1
        (delay (calculateDelays_radial (\<lambda>k. 0.5) (generateHexGrid_radial 1920 1080)
                  1920 1080 (Num 0) (Num 1079) ! 42))
   \<and> \<not> inRange WAVE_SPREAD_radial
        (delay (calculateDelays_radial (\<lambda>k. 0.5) (generateHexGrid_radial 1920 1080)
                  1920 1080 (Num 0) (Num 1079) ! 42))"
proof -
  let ?g = "generateHexGrid 1920 1080"
  let ?vert = "sqrt 3 * HEX_SIZE * 0.88"
  let ?h = "\<lparr>hx = - HEX_SIZE * 4 + real (41::nat) * (HEX_SIZE * 2 * 0.72),
             hy = - HEX_SIZE * 4 + real (0::nat) * ?vert
                  + (if (41::nat) mod 2 = 1 then ?vert / 2 else 0),
             delay = Num 0\<rparr>"
  have rows: "0 < nat (\<lceil>1080 / ?vert\<rceil> + 8)"
    by (rule rows_pos) simp
  have c: "nat (\<lceil>1920 / (HEX_SIZE * 2 * 0.72)\<rceil> + 8) = 42"
    by (simp add: HEX_SIZE_def)
  have cols: "(41::nat) < nat (\<lceil>1920 / (HEX_SIZE * 2 * 0.72)\<rceil> + 8)"
    by (simp add: HEX_SIZE_def)
  have "length ?g = nat (\<lceil>1080 / ?vert\<rceil> + 8) * 42"
    by (simp only: generateHexGrid_length c)
  then have len: "41 < length ?g"
    using rows by linarith
  have "?g ! 41 = ?h"
    unfolding generateHexGrid_def Let_def
    by (rule grid_first_row [OF rows cols])
  then have d: "delay (calculateDelays (\<lambda>k. 0.5) ?g 1920 Ltr ! 41) = hexDelay 1920 Ltr 0.5 ?h"
    using len by (simp add: calculateDelays_def calculateDelays_from_nth)
  have w: "(1920::real) \<noteq> - 8 * HEX_SIZE"
    by (simp add: HEX_SIZE_def)
  have e: "hexDelay 1920 Ltr 0.5 ?h = Num (max 0 (min 0.95 (369 / 700 + sin (hy ?h * 0.015) * 0.02)))"
    unfolding hexDelay_value [OF w]
    by (simp add: HEX_SIZE_def WAVE_SPREAD_def STAGGER_NOISE_def)
  have "WAVE_SPREAD < max 0 (min 0.95 (369 / 700 + v * 0.02))" if "- 1 \<le> v" for v :: real
    using that by (simp add: max_def min_def WAVE_SPREAD_def)
  then have "WAVE_SPREAD < max 0 (min 0.95 (369 / 700 + sin (hy ?h * 0.015) * 0.02))"
    using sin_ge_minus_one by blast
  then have a: "\<not> inRange WAVE_SPREAD (hexDelay 1920 Ltr 0.5 ?h)"
    unfolding e by (rule not_inRange)
  have a': "inRange 0.95 (hexDelay 1920 Ltr 0.5 ?h)"
    by (rule hexDelay_finite [OF w])
  let ?gr = "generateHexGrid_radial 1920 1080"
  let ?vr = "sqrt 3 * HEX_SIZE_radial + 2"
  let ?hr = "\<lparr>hx = - HEX_SIZE_radial * 2 + real (42::nat) * (HEX_SIZE_radial * 2 * 0.75 + 2),
              hy = - HEX_SIZE_radial * 2 + real (0::nat) * ?vr
                   + (if (42::nat) mod 2 = 1 then ?vr / 2 else 0),
              delay = Num 0\<rparr>"
  have rrows: "0 < nat (\<lceil>1080 / ?vr\<rceil> + 4)"
    by (rule rows_radial_pos) simp
  have rc: "nat (\<lceil>1920 / (HEX_SIZE_radial * 2 * 0.75 + 2)\<rceil> + 4) = 43"
    by (simp add: HEX_SIZE_radial_def)
  have rcols: "(42::nat) < nat (\<lceil>1920 / (HEX_SIZE_radial * 2 * 0.75 + 2)\<rceil> + 4)"
    by (simp add: HEX_SIZE_radial_def)
  have "length ?gr = nat (\<lceil>1080 / ?vr\<rceil> + 4) * 43"
    by (simp only: generateHexGrid_radial_length rc)
  then have rlen: "42 < length ?gr"
    using rrows by linarith
  have "?gr ! 42 = ?hr"
    unfolding generateHexGrid_radial_def Let_def
    by (rule grid_first_row [OF rrows rcols])
  then have rd: "delay (calculateDelays_radial (\<lambda>k. 0.5) ?gr 1920 1080 (Num 0) (Num 1079) ! 42)
      = hexDelay_radial 1920 1080 (Num 0) (Num 1079) 0.5 ?hr"
    using rlen by (simp add: calculateDelays_radial_def calculateDelays_radial_from_nth)
  have v: "(1920::real) \<noteq> 0 \<or> (1080::real) \<noteq> 0"
    by simp
  define nd :: real where
    "nd = sqrt ((hx ?hr - 0) * (hx ?hr - 0) + (hy ?hr - 1079) * (hy ?hr - 1079))
          / sqrt (1920 * 1920 + 1080 * 1080)"
  have "nd = sqrt 5451745 / sqrt 4852800"
    by (simp add: nd_def HEX_SIZE_radial_def)
  moreover have "sqrt 4852800 < sqrt 5451745"
    by simp
  moreover have "(0::real) < sqrt 4852800"
    by simp
  ultimately have nd1: "1 < nd"
    by simp
  have re: "hexDelay_radial 1920 1080 (Num 0) (Num 1079) 0.5 ?hr
      = Num (max 0 (min 1 (nd * WAVE_SPREAD_radial + (0.5 - 0.5) * STAGGER_NOISE_radial)))"
    unfolding hexDelay_radial_value [OF v] nd_def by (rule refl)
  have "WAVE_SPREAD_radial
          < max 0 (min 1 (x * WAVE_SPREAD_radial + (0.5 - 0.5) * STAGGER_NOISE_radial))"
    if "1 < x" for x :: real
    using that by (simp add: max_def min_def WAVE_SPREAD_radial_def)
  then have "WAVE_SPREAD_radial
          < max 0 (min 1 (nd * WAVE_SPREAD_radial + (0.5 - 0.5) * STAGGER_NOISE_radial))"
    using nd1 by blast
  then have b: "\<not> inRange WAVE_SPREAD_radial (hexDelay_radial 1920 1080 (Num 0) (Num 1079) 0.5 ?hr)"
    unfolding re by (rule not_inRange)
  have b': "inRange 1 (hexDelay_radial 1920 1080 (Num 0) (Num 1079) 0.5 ?hr)"
    by (rule hexDelay_radial_finite [OF v])
  have l1: "41 < length (calculateDelays (\<lambda>k. 0.5) ?g 1920 Ltr)"
    using len by (simp add: calculateDelays_def)
  have l2: "42 < length (calculateDelays_radial (\<lambda>k. 0.5) ?gr 1920 1080 (Num 0) (Num 1079))"
    using rlen by (simp add: calculateDelays_radial_def)
  show ?thesis
    unfolding d rd using l1 l2 a a' b b' by (intro conjI)
qed

text \<open>
  C2, amended. For any tiles, wave direction and random draws, every delay that
  \<open>calculateDelays\<close> assigns is a number between 0 and the constant of its clamp, 0.95 in
  the directional version and 1 in the radial one, whenever the quotient in it has a
  non-zero denominator and finite operands: in the directional version for every width
  other than minus eight tile radii (so for every width a window has), in the radial
  version for every viewport other than 0 by 0 and every finite origin. In the cases
  left, the delay is such a number or NaN.
\<close>

theorem calculateDelays_bounds:
  "(\<forall>h\<in>set (calculateDelays rs tiles width dir).
       delay h = NaN \<or> inRange 0.95 (delay h))
   \<and> (width \<noteq> - 8 * HEX_SIZE \<longrightarrow>
        (\<forall>h\<in>set (calculateDelays rs tiles width dir). inRange 0.95 (delay h)))
   \<and> (\<forall>h\<in>set (calculateDelays_radial rs tiles width height u v).
         delay h = NaN \<or> inRange 1 (delay h))
   \<and> (width \<noteq> 0 \<or> height \<noteq> 0 \<longrightarrow>
        (\<forall>h\<in>set (calculateDelays_radial rs tiles width height (Num ox) (Num oy)).
           inRange 1 (delay h)))"
proof (intro conjI impI)
  show "\<forall>h\<in>set (calculateDelays rs tiles width dir). delay h = NaN \<or> inRange 0.95 (delay h)"
    unfolding calculateDelays_def
    by (rule calculateDelays_from_all) (rule hexDelay_NaN_or_inRange)
  show "\<forall>h\<in>set (calculateDelays rs tiles width dir). inRange 0.95 (delay h)"
    if "width \<noteq> - 8 * HEX_SIZE"
    unfolding calculateDelays_def
    by (rule calculateDelays_from_all) (rule hexDelay_finite [OF that])
  show "\<forall>h\<in>set (calculateDelays_radial rs tiles width height u v).
         delay h = NaN \<or> inRange 1 (delay h)"
    unfolding calculateDelays_radial_def
    by (rule calculateDelays_radial_from_all) (rule hexDelay_radial_NaN_or_inRange)
  show "\<forall>h\<in>set (calculateDelays_radial rs tiles width height (Num ox) (Num oy)).
           inRange 1 (delay h)"
    if "width \<noteq> 0 \<or> height \<noteq> 0"
    unfolding calculateDelays_radial_def
    by (rule calculateDelays_radial_from_all) (rule hexDelay_radial_finite [OF that])
qed

theorem calculateDelays_bounds_witness:
  "inRange 0.95 (delay (hd (calculateDelays (\<lambda>k. 0.9)
                              [\<lparr>hx = 100, hy = 50, delay = Num 0\<rparr>] 1920 Rtl)))
   \<and> inRange 1 (delay (hd (calculateDelays_radial (\<lambda>k. 0.9)
                              [\<lparr>hx = 100, hy = 50, delay = Num 0\<rparr>] 1920 1080
                              (Num 960) (Num 324))))"
proof -
  let ?a = "calculateDelays (\<lambda>k. 0.9) [\<lparr>hx = 100, hy = 50, delay = Num 0\<rparr>] 1920 Rtl"
  let ?b = "calculateDelays_radial (\<lambda>k. 0.9) [\<lparr>hx = 100, hy = 50, delay = Num 0\<rparr>]
              1920 1080 (Num 960) (Num 324)"
  have m: "hd ?a \<in> set ?a" "hd ?b \<in> set ?b"
    by (simp_all add: calculateDelays_def calculateDelays_radial_def)
  have w: "(1920::real) \<noteq> - 8 * HEX_SIZE" "(1920::real) \<noteq> 0 \<or> (1080::real) \<noteq> 0"
    by (simp_all add: HEX_SIZE_def)
  show ?thesis
    using calculateDelays_bounds
      [of "\<lambda>k. 0.9" "[\<lparr>hx = 100, hy = 50, delay = Num 0\<rparr>]" 1920 Rtl 1080 "Num 960" "Num 324"
          960 324] m w
    by blast
qed

text \<open>
  The cases left, where a denominator is zero or the origin is not a number: in the
  directional version a zero range gives NaN for a tile at \<open>minX\<close>; in the radial version
  a viewport of 0 by 0 gives the delay 1 (the clamp of an infinite quotient), or NaN for
  a tile at the origin itself, and an origin that is NaN gives NaN throughout.
\<close>

lemma hexDelay_zero_range:
  "hexDelay (- 8 * HEX_SIZE) d r (h\<lparr>hx := - HEX_SIZE * 4\<rparr>) = NaN"
  by (cases d) (simp_all add: hexDelay_def Let_def js_sub_def)

lemma hexDelay_radial_zero_viewport:
  "hexDelay_radial 0 0 (Num ox) (Num oy) r h = (if hx h = ox \<and> hy h = oy then NaN else Num 1)"
proof -
  have d: "js_sqrt (js_add (js_mul (js_sub (Num (hx h)) (Num ox)) (js_sub (Num (hx h)) (Num ox)))
             (js_mul (js_sub (Num (hy h)) (Num oy)) (js_sub (Num (hy h)) (Num oy))))
        = Num (sqrt ((hx h - ox) * (hx h - ox) + (hy h - oy) * (hy h - oy)))"
    by (simp add: js_sub_def sum_squares_nonneg)
  have z: "sqrt ((hx h - ox) * (hx h - ox) + (hy h - oy) * (hy h - oy)) = 0
      \<longleftrightarrow> hx h = ox \<and> hy h = oy"
    by (simp add: sum_squares_eq_zero_iff)
  have p: "0 \<le> sqrt ((hx h - ox) * (hx h - ox) + (hy h - oy) * (hy h - oy))"
    by simp
  show ?thesis
  proof (cases "hx h = ox \<and> hy h = oy")
    case True
    then show ?thesis
      unfolding hexDelay_radial_def Let_def d by simp
  next
    case False
    then have "0 < sqrt ((hx h - ox) * (hx h - ox) + (hy h - oy) * (hy h - oy))"
      using z p by linarith
    then show ?thesis
      unfolding hexDelay_radial_def Let_def d using False
      by (simp add: WAVE_SPREAD_radial_def)
  qed
qed

lemma hexDelay_radial_NaN_origin: "hexDelay_radial w hh NaN v r h = NaN"
  by (simp add: hexDelay_radial_def Let_def js_sub_def)

text \<open>
  C7, as the specification states it, fails: a viewport of width 0 and height 0 gives
  the 8 by 8 overscan tiles in the directional version and 4 by 4 in the radial one.
\<close>

theorem generateHexGrid_degenerate_counterexample:
  "length (generateHexGrid 0 0) = 64 \<and> length (generateHexGrid_radial 0 0) = 16"
  by (simp add: generateHexGrid_length generateHexGrid_radial_length)

text \<open>
  C7, amended. The tile radius is a constant, not an input. The generator returns no
  tile exactly when the width is at most minus eight column pitches or the height at
  most minus eight row pitches (four in the radial version). Given no tiles, a frame
  paints its background and issues no tile drawing.
\<close>

theorem degenerate_viewport_grid:
  "(generateHexGrid width height = [] \<longleftrightarrow>
      width \<le> - 8 * (HEX_SIZE * 2 * 0.72) \<or> height \<le> - 8 * (sqrt 3 * HEX_SIZE * 0.88))
   \<and> (generateHexGrid_radial width height = [] \<longleftrightarrow>
        width \<le> - 4 * (HEX_SIZE_radial * 2 * 0.75 + 2)
        \<or> height \<le> - 4 * (sqrt 3 * HEX_SIZE_radial + 2))
   \<and> ops (animate p e t (c\<lparr>hexes := []\<rparr>))
       = ops c @ [ClearRect 0 0 (innerWidth e) (innerHeight e), SetFillStyle (lightColor p),
                  FillRect 0 0 (innerWidth e) (innerHeight e)]
   \<and> ops (animate_radial p e t (c\<lparr>hexes := []\<rparr>))
       = ops c @ [ClearRect 0 0 (innerWidth e) (innerHeight e)]"
  using generateHexGrid_empty_iff [of width height]
    generateHexGrid_radial_empty_iff [of width height]
  by (simp add: animate_def animate_radial_def Let_def)

section \<open>The callbacks of a run\<close>

text \<open>
  C3. An entering run has direction reveal and both handlers. Whatever timestamps it is
  given, and so for increasing ones, its callbacks are a prefix of: partial reveal, then
  completion; each is invoked at most once and completion never comes first. When the
  surface is there and the timestamps reach the duration after the first one (or reduced
  motion is on), the callbacks are exactly partial reveal, then completion. This holds
  in both versions.
\<close>

theorem entering_run_callback_order:
  assumes "direction p = Reveal" and "onPartialReveal p" and "onComplete p"
  shows "callbacks (run p e ticks) \<in> {[], [OnPartialReveal], [OnPartialReveal, OnComplete]}
       \<and> callbacks (run_radial p e ticks)
           \<in> {[], [OnPartialReveal], [OnPartialReveal, OnComplete]}
       \<and> (isActive p \<and> canvasPresent e \<and> ctxPresent e
            \<and> (prefersReducedMotion e \<or> (\<exists>t\<in>set ticks. DURATION \<le> t - hd ticks))
          \<longrightarrow> callbacks (run p e ticks) = [OnPartialReveal, OnComplete])
       \<and> (isActive p \<and> canvasPresent e \<and> ctxPresent e
            \<and> (prefersReducedMotion e \<or> (\<exists>t\<in>set ticks. DURATION_radial \<le> t - hd ticks))
          \<longrightarrow> callbacks (run_radial p e ticks) = [OnPartialReveal, OnComplete])"
proof -
  have shape: "callbacks (run p e ticks) \<in> {[], [OnPartialReveal], [OnPartialReveal, OnComplete]}"
  proof (cases "prefersReducedMotion e")
    case False
    then show ?thesis using run_shape [of e p ticks] assms by auto
  next
    case r: True
    show ?thesis
    proof (cases "isActive p \<and> canvasPresent e \<and> ctxPresent e")
      case True
      then show ?thesis
        using run_reduced [of p e ticks] startRun_reduced(2) [of p e] r assms
        by (simp add: callbacks_def)
    next
      case False
      then show ?thesis
        using run_aborted [of p e ticks] startRun_aborted(2) [of p e]
        by (auto simp add: callbacks_def)
    qed
  qed
  have shape_r: "callbacks (run_radial p e ticks)
      \<in> {[], [OnPartialReveal], [OnPartialReveal, OnComplete]}"
  proof (cases "prefersReducedMotion e")
    case False
    then show ?thesis using run_radial_shape [of e p ticks] assms by auto
  next
    case r: True
    show ?thesis
    proof (cases "isActive p \<and> canvasPresent e \<and> ctxPresent e")
      case True
      then show ?thesis
        using run_radial_reduced [of p e ticks] startRun_radial_reduced(2) [of p e] r assms
        by (simp add: callbacks_def)
    next
      case False
      then show ?thesis
        using run_radial_aborted [of p e ticks] startRun_radial_aborted(2) [of p e]
        by (auto simp add: callbacks_def)
    qed
  qed
  have full: "callbacks (run p e ticks) = [OnPartialReveal, OnComplete]"
    if "isActive p" "canvasPresent e" "ctxPresent e"
      "prefersReducedMotion e \<or> (\<exists>t\<in>set ticks. DURATION \<le> t - hd ticks)"
  proof (cases "prefersReducedMotion e")
    case True
    then show ?thesis
      using run_reduced [of p e ticks] startRun_reduced(2) [of p e] that assms
      by (simp add: callbacks_def)
  next
    case False
    then show ?thesis
      using run_completes [of p e ticks] that assms by simp
  qed
  have full_r: "callbacks (run_radial p e ticks) = [OnPartialReveal, OnComplete]"
    if "isActive p" "canvasPresent e" "ctxPresent e"
      "prefersReducedMotion e \<or> (\<exists>t\<in>set ticks. DURATION_radial \<le> t - hd ticks)"
  proof (cases "prefersReducedMotion e")
    case True
    then show ?thesis
      using run_radial_reduced [of p e ticks] startRun_radial_reduced(2) [of p e] that assms
      by (simp add: callbacks_def)
  next
    case False
    then show ?thesis
      using run_radial_completes [of p e ticks] that assms by simp
  qed
  show ?thesis
    using shape shape_r full full_r by blast
qed

theorem entering_run_callback_order_witness:
  "callbacks (run \<lparr>isActive = True, direction = Reveal, onComplete = True,
                   onPartialReveal = True, darkColor = ''#0B0E14'', lightColor = ''#ffffff'',
                   originX = Num 0.5, originY = Num 0.3\<rparr>
                 \<lparr>canvasPresent = True, ctxPresent = True, devicePixelRatio = 1,
                   innerWidth = 1920, innerHeight = 1080, prefersReducedMotion = False,
                   rnd = (\<lambda>k. 0.5)\<rparr>
                 [100, 400, 700, 1100]) = [OnPartialReveal, OnComplete]
   \<and> callbacks (run_radial \<lparr>isActive = True, direction = Reveal, onComplete = True,
                   onPartialReveal = True, darkColor = ''#0B0E14'', lightColor = ''#ffffff'',
                   originX = Num 0.5, originY = Num 0.3\<rparr>
                 \<lparr>canvasPresent = True, ctxPresent = True, devicePixelRatio = 1,
                   innerWidth = 1920, innerHeight = 1080, prefersReducedMotion = False,
                   rnd = (\<lambda>k. 0.5)\<rparr>
                 [100, 400, 700, 1100]) = [OnPartialReveal, OnComplete]"
  using entering_run_callback_order
    [of "\<lparr>isActive = True, direction = Reveal, onComplete = True,
          onPartialReveal = True, darkColor = ''#0B0E14'', lightColor = ''#ffffff'',
          originX = Num 0.5, originY = Num 0.3\<rparr>"
        "\<lparr>canvasPresent = True, ctxPresent = True, devicePixelRatio = 1,
          innerWidth = 1920, innerHeight = 1080, prefersReducedMotion = False,
          rnd = (\<lambda>k. 0.5)\<rparr>"
        "[100, 400, 700, 1100]"]
  by (simp add: DURATION_def DURATION_radial_def)



text \<open>
  The one case outside the theorem is a hide canvas that is given a partial-reveal
  handler while reduced motion is reported. No caller makes one: \<open>HexGridCanvas\<close> is not
  exported, and \<open>PageTransition\<close> gives the exiting canvas no such handler. There the
  timeout branch, which does not look at the direction, would invoke the handler.
\<close>

lemma hide_canvas_with_handler_reduced_motion:
  "callbacks (run \<lparr>isActive = True, direction = Hide, onComplete = True,
                   onPartialReveal = True, darkColor = ''#0B0E14'', lightColor = ''#ffffff'',
                   originX = Num 0.5, originY = Num 0.5\<rparr>
                 \<lparr>canvasPresent = True, ctxPresent = True, devicePixelRatio = 1,
                   innerWidth = 1920, innerHeight = 1080, prefersReducedMotion = True,
                   rnd = (\<lambda>k. 0.5)\<rparr>
                 [100, 400, 700, 1100]) = [OnPartialReveal, OnComplete]"
  by (simp add: run_reduced startRun_reduced(2) callbacks_def)

text \<open>
  C6, as the specification states it, fails: with the canvas element or the 2D context
  absent, a run given both handlers invokes neither.
\<close>

theorem surface_unavailable_counterexample:
  "callbacks (run \<lparr>isActive = True, direction = Reveal, onComplete = True,
                   onPartialReveal = True, darkColor = ''#0B0E14'', lightColor = ''#ffffff'',
                   originX = Num 0.5, originY = Num 0.3\<rparr>
                 \<lparr>canvasPresent = True, ctxPresent = False, devicePixelRatio = 1,
                   innerWidth = 1920, innerHeight = 1080, prefersReducedMotion = False,
                   rnd = (\<lambda>k. 0.5)\<rparr>
                 [100, 400, 700, 1100]) = []
   \<and> callbacks (run_radial \<lparr>isActive = True, direction = Reveal, onComplete = True,
                   onPartialReveal = True, darkColor = ''#0B0E14'', lightColor = ''#ffffff'',
                   originX = Num 0.5, originY = Num 0.3\<rparr>
                 \<lparr>canvasPresent = False, ctxPresent = False, devicePixelRatio = 1,
                   innerWidth = 1920, innerHeight = 1080, prefersReducedMotion = False,
                   rnd = (\<lambda>k. 0.5)\<rparr>
                 [100, 400, 700, 1100]) = []"
  by (simp add: run_aborted run_radial_aborted startRun_aborted(2) startRun_radial_aborted(2)
      callbacks_def)

text \<open>
  C6, amended. If the canvas element or its 2D context is absent at the start of a run,
  the run stops there: no tiles are generated, no timeout and no frame is scheduled,
  nothing is drawn (the canvas is resized when only the context is absent), and neither
  callback is invoked. This holds in both versions.
\<close>

theorem surface_unavailable_run:
  assumes "\<not> canvasPresent e \<or> \<not> ctxPresent e"
  shows "tasks (run p e ticks) = [] \<and> hexes (run p e ticks) = []
       \<and> timer (run p e ticks) = None \<and> \<not> frameRequested (run p e ticks)
       \<and> startTime (run p e ticks) = None
       \<and> ops (run p e ticks) =
           (if isActive p \<and> canvasPresent e
            then [SetSize (innerWidth e * dpr_of e) (innerHeight e * dpr_of e)] else [])
       \<and> tasks (run_radial p e ticks) = [] \<and> hexes (run_radial p e ticks) = []
       \<and> timer (run_radial p e ticks) = None \<and> \<not> frameRequested (run_radial p e ticks)
       \<and> startTime (run_radial p e ticks) = None
       \<and> ops (run_radial p e ticks) =
           (if isActive p \<and> canvasPresent e
            then [SetSize (innerWidth e * dpr_of e) (innerHeight e * dpr_of e)] else [])"
proof -
  have a: "\<not> isActive p \<or> \<not> canvasPresent e \<or> \<not> ctxPresent e"
    using assms by blast
  show ?thesis
    unfolding run_aborted [OF a] run_radial_aborted [OF a]
    using startRun_aborted [OF a] startRun_radial_aborted [OF a] by simp
qed

theorem surface_unavailable_run_witness:
  "tasks (run \<lparr>isActive = True, direction = Reveal, onComplete = True,
                   onPartialReveal = True, darkColor = ''#0B0E14'', lightColor = ''#ffffff'',
                   originX = Num 0.5, originY = Num 0.3\<rparr>
                 \<lparr>canvasPresent = True, ctxPresent = False, devicePixelRatio = 2,
                   innerWidth = 1920, innerHeight = 1080, prefersReducedMotion = False,
                   rnd = (\<lambda>k. 0.5)\<rparr>
                 [100, 400, 700, 1100]) = []
   \<and> ops (run \<lparr>isActive = True, direction = Reveal, onComplete = True,
                   onPartialReveal = True, darkColor = ''#0B0E14'', lightColor = ''#ffffff'',
                   originX = Num 0.5, originY = Num 0.3\<rparr>
                 \<lparr>canvasPresent = True, ctxPresent = False, devicePixelRatio = 2,
                   innerWidth = 1920, innerHeight = 1080, prefersReducedMotion = False,
                   rnd = (\<lambda>k. 0.5)\<rparr>
                 [100, 400, 700, 1100]) = [SetSize 3840 2160]"
  using surface_unavailable_run
    [of "\<lparr>canvasPresent = True, ctxPresent = False, devicePixelRatio = 2,
          innerWidth = 1920, innerHeight = 1080, prefersReducedMotion = False,
          rnd = (\<lambda>k. 0.5)\<rparr>"
        "\<lparr>isActive = True, direction = Reveal, onComplete = True,
          onPartialReveal = True, darkColor = ''#0B0E14'', lightColor = ''#ffffff'',
          originX = Num 0.5, originY = Num 0.3\<rparr>"
        "[100, 400, 700, 1100]"]
  by (simp add: dpr_of_def)

text \<open>
  C5, as the specification states it, fails: in a reduced-motion run on a viewport of
  1920 by 1080 the tiles are generated all the same, and both callbacks are invoked by
  one and the same timeout callback, one right after the other.
\<close>

theorem reduced_motion_generates_tiles_counterexample:
  "hexes (run \<lparr>isActive = True, direction = Reveal, onComplete = True,
                   onPartialReveal = True, darkColor = ''#0B0E14'', lightColor = ''#ffffff'',
                   originX = Num 0.5, originY = Num 0.3\<rparr>
                 \<lparr>canvasPresent = True, ctxPresent = True, devicePixelRatio = 1,
                   innerWidth = 1920, innerHeight = 1080, prefersReducedMotion = True,
                   rnd = (\<lambda>k. 0.5)\<rparr> []) \<noteq> []
   \<and> tasks (run \<lparr>isActive = True, direction = Reveal, onComplete = True,
                   onPartialReveal = True, darkColor = ''#0B0E14'', lightColor = ''#ffffff'',
                   originX = Num 0.5, originY = Num 0.3\<rparr>
                 \<lparr>canvasPresent = True, ctxPresent = True, devicePixelRatio = 1,
                   innerWidth = 1920, innerHeight = 1080, prefersReducedMotion = True,
                   rnd = (\<lambda>k. 0.5)\<rparr> []) = [[OnPartialReveal, OnComplete]]"
proof -
  have "(0::real) \<le> sqrt 3"
    by simp
  then have "\<not> 1080 \<le> - (1408 * sqrt 3 / 5)"
    by linarith
  then have "generateHexGrid 1920 1080 \<noteq> []"
    by (simp add: generateHexGrid_empty_iff HEX_SIZE_def)
  moreover have "length (calculateDelays (\<lambda>k. 0.5) (generateHexGrid 1920 1080) 1920 Ltr)
      = length (generateHexGrid 1920 1080)"
    by (simp add: calculateDelays_def)
  ultimately have "calculateDelays (\<lambda>k. 0.5) (generateHexGrid 1920 1080) 1920 Ltr \<noteq> []"
    by force
  then show ?thesis
    by (simp add: run_reduced startRun_reduced(2) startRun_reduced(6))
qed

text \<open>
  C5, amended. Under reduced motion, with the surface there, a run schedules one timeout
  of 50 ms and no frame; it generates the tiles and their delays but issues no drawing
  at all; and its one timeout callback invokes the partial-reveal handler and then the
  completion handler (each if supplied) within the same host task. This holds in both
  versions.
\<close>

theorem reduced_motion_run:
  assumes "prefersReducedMotion e" and "isActive p" and "canvasPresent e" and "ctxPresent e"
  shows "timer (startRun p e mounted) = Some (50, FireBoth)
       \<and> \<not> frameRequested (run p e ticks) \<and> startTime (run p e ticks) = None
       \<and> ops (run p e ticks) = [SetSize (innerWidth e * dpr_of e) (innerHeight e * dpr_of e),
                                 Scale (dpr_of e) (dpr_of e)]
       \<and> hexes (run p e ticks) =
           calculateDelays (rnd e) (generateHexGrid (innerWidth e) (innerHeight e))
             (innerWidth e) (if direction p = Reveal then Ltr else Rtl)
       \<and> tasks (run p e ticks) = [(if onPartialReveal p then [OnPartialReveal] else [])
                                   @ (if onComplete p then [OnComplete] else [])]
       \<and> timer (startRun_radial p e mounted) = Some (50, FireBoth)
       \<and> \<not> frameRequested (run_radial p e ticks) \<and> startTime (run_radial p e ticks) = None
       \<and> ops (run_radial p e ticks) =
           [SetSize (innerWidth e * dpr_of e) (innerHeight e * dpr_of e),
            Scale (dpr_of e) (dpr_of e)]
       \<and> hexes (run_radial p e ticks) =
           calculateDelays_radial (rnd e) (generateHexGrid_radial (innerWidth e) (innerHeight e))
             (innerWidth e) (innerHeight e) (js_mul (originX p) (Num (innerWidth e)))
             (js_mul (originY p) (Num (innerHeight e)))
       \<and> tasks (run_radial p e ticks) = [(if onPartialReveal p then [OnPartialReveal] else [])
                                          @ (if onComplete p then [OnComplete] else [])]"
proof -
  note a = assms(2) assms(3) assms(4) assms(1)
  show ?thesis
    unfolding run_reduced [OF a] run_radial_reduced [OF a]
    using startRun_reduced [OF a] startRun_radial_reduced [OF a] by simp
qed

theorem reduced_motion_run_witness:
  "tasks (run \<lparr>isActive = True, direction = Reveal, onComplete = True,
                   onPartialReveal = True, darkColor = ''#0B0E14'', lightColor = ''#ffffff'',
                   originX = Num 0.5, originY = Num 0.3\<rparr>
                 \<lparr>canvasPresent = True, ctxPresent = True, devicePixelRatio = 2,
                   innerWidth = 1920, innerHeight = 1080, prefersReducedMotion = True,
                   rnd = (\<lambda>k. 0.5)\<rparr> [100, 400]) = [[OnPartialReveal, OnComplete]]
   \<and> ops (run \<lparr>isActive = True, direction = Reveal, onComplete = True,
                   onPartialReveal = True, darkColor = ''#0B0E14'', lightColor = ''#ffffff'',
                   originX = Num 0.5, originY = Num 0.3\<rparr>
                 \<lparr>canvasPresent = True, ctxPresent = True, devicePixelRatio = 2,
                   innerWidth = 1920, innerHeight = 1080, prefersReducedMotion = True,
                   rnd = (\<lambda>k. 0.5)\<rparr> [100, 400]) = [SetSize 3840 2160, Scale 2 2]"
  using reduced_motion_run
    [of "\<lparr>canvasPresent = True, ctxPresent = True, devicePixelRatio = 2,
          innerWidth = 1920, innerHeight = 1080, prefersReducedMotion = True,
          rnd = (\<lambda>k. 0.5)\<rparr>"
        "\<lparr>isActive = True, direction = Reveal, onComplete = True,
          onPartialReveal = True, darkColor = ''#0B0E14'', lightColor = ''#ffffff'',
          originX = Num 0.5, originY = Num 0.3\<rparr>"
        "[100, 400]"]
  by (simp add: dpr_of_def)

section \<open>The radius of a tile\<close>

lemma hexProgress_Num:
  assumes "s \<noteq> 1"
  shows "js_max (Num 0) (js_min (Num 1) (js_div (js_sub (Num g) (Num d)) (Num (1 - s))))
         = Num (spec_localProgress g d s)"
proof -
  have "1 - s \<noteq> 0"
    using assms by simp
  then have "js_div (Num (g - d)) (Num (1 - s)) = Num ((g - d) / (1 - s))"
    by (rule js_div_finite)
  then show ?thesis
    by (simp only: js_sub_Num js_min.simps js_max.simps spec_localProgress_def)
qed

lemma hexProgress_NaN:
  "js_max (Num 0) (js_min (Num 1) (js_div (js_sub (Num g) NaN) (Num s))) = NaN"
  by (simp add: js_sub_def)

lemma tileSize_Num:
  "tileSize p g (h\<lparr>delay := Num d\<rparr>) =
     (if direction p = Reveal
      then (if 1 - easeOutQuart (spec_localProgress g d WAVE_SPREAD) > 0.01
            then Some (HEX_DRAW_SIZE * (1 - easeOutQuart (spec_localProgress g d WAVE_SPREAD)))
            else None)
      else (if easeInQuart (spec_localProgress g d WAVE_SPREAD) > 0.01
            then Some (HEX_DRAW_SIZE * easeInQuart (spec_localProgress g d WAVE_SPREAD))
            else None))"
proof -
  have "WAVE_SPREAD \<noteq> 1"
    by (simp add: WAVE_SPREAD_def)
  note hp = hexProgress_Num [OF this]
  have sel: "delay (h\<lparr>delay := Num d\<rparr>) = Num d"
    by simp
  show ?thesis
    unfolding tileSize_def sel hp by (simp only: jsnum.case Let_def)
qed

lemma tileSize_radial_Num:
  "tileSize_radial p g (h\<lparr>delay := Num d\<rparr>) =
     (if direction p = Reveal
      then (if easeInOutCubic (spec_localProgress g d WAVE_SPREAD_radial) < 1
            then Some (HEX_SIZE_radial * (1 - easeInOutCubic (spec_localProgress g d WAVE_SPREAD_radial)))
            else None)
      else (if easeInOutCubic (spec_localProgress g d WAVE_SPREAD_radial) > 0
            then Some (HEX_SIZE_radial * easeInOutCubic (spec_localProgress g d WAVE_SPREAD_radial))
            else None))"
proof -
  have "WAVE_SPREAD_radial \<noteq> 1"
    by (simp add: WAVE_SPREAD_radial_def)
  note hp = hexProgress_Num [OF this]
  have sel: "delay (h\<lparr>delay := Num d\<rparr>) = Num d"
    by simp
  show ?thesis
    unfolding tileSize_radial_def sel hp by (simp only: jsnum.case Let_def)
qed

lemma tileSize_NaN: "tileSize p g (h\<lparr>delay := NaN\<rparr>) = None"
proof -
  have sel: "delay (h\<lparr>delay := NaN\<rparr>) = NaN"
    by simp
  show ?thesis
    unfolding tileSize_def sel hexProgress_NaN by (simp only: jsnum.case)
qed

lemma tileSize_radial_NaN: "tileSize_radial p g (h\<lparr>delay := NaN\<rparr>) = None"
proof -
  have sel: "delay (h\<lparr>delay := NaN\<rparr>) = NaN"
    by simp
  show ?thesis
    unfolding tileSize_radial_def sel hexProgress_NaN by (simp only: jsnum.case)
qed

lemma paint_directional:
  "(if sc > 0.01 then drawHexagon cx cy (HEX_DRAW_SIZE * sc) col else [])
   = (if 1 \<le> HEX_DRAW_SIZE * sc
      then [BeginPath] @ hexPath cx cy (HEX_DRAW_SIZE * sc) @ [ClosePath, SetFillStyle col, Fill]
      else [])"
proof (cases "1 \<le> HEX_DRAW_SIZE * sc")
  case True
  then have "sc > 0.01"
    by (simp add: HEX_DRAW_SIZE_def)
  then show ?thesis
    using True by (simp add: drawHexagon_def)
next
  case False
  then show ?thesis
    by (simp add: drawHexagon_def)
qed

lemma paint_radial_reveal:
  "(if e < 1 then drawHexagon_radial cx cy (HEX_SIZE_radial * (1 - e)) col else [])
   = (if 0.5 \<le> HEX_SIZE_radial * (1 - e)
      then [BeginPath] @ hexPath cx cy (HEX_SIZE_radial * (1 - e))
           @ [ClosePath, SetFillStyle col, Fill]
      else [])"
proof (cases "0.5 \<le> HEX_SIZE_radial * (1 - e)")
  case True
  then have "e < 1"
    by (simp add: HEX_SIZE_radial_def)
  then show ?thesis
    using True by (simp add: drawHexagon_radial_def)
next
  case False
  then show ?thesis
    by (simp add: drawHexagon_radial_def)
qed

lemma paint_radial_hide:
  "(if e > 0 then drawHexagon_radial cx cy (HEX_SIZE_radial * e) col else [])
   = (if 0.5 \<le> HEX_SIZE_radial * e
      then [BeginPath] @ hexPath cx cy (HEX_SIZE_radial * e) @ [ClosePath, SetFillStyle col, Fill]
      else [])"
proof (cases "0.5 \<le> HEX_SIZE_radial * e")
  case True
  then have "e > 0"
    by (simp add: HEX_SIZE_radial_def)
  then show ?thesis
    using True by (simp add: drawHexagon_radial_def)
next
  case False
  then show ?thesis
    by (simp add: drawHexagon_radial_def)
qed

lemma spec_drawnRadius_Reveal:
  "spec_drawnRadius Reveal R g d s = R * (1 - easeOutQuart (spec_localProgress g d s))"
  unfolding spec_drawnRadius_def spec_easedProgress_def easeOutQuart_def Let_def by simp

lemma spec_drawnRadius_Hide:
  "spec_drawnRadius Hide R g d s = R * easeInQuart (spec_localProgress g d s)"
  unfolding spec_drawnRadius_def spec_easedProgress_def easeInQuart_def Let_def
  by (simp add: power4_eq_xxxx)

lemma drawTile_Num:
  "drawTile p g (h\<lparr>delay := Num d\<rparr>) =
     (let R = spec_drawnRadius (direction p) HEX_DRAW_SIZE g d WAVE_SPREAD
      in if 1 \<le> R
         then [BeginPath] @ hexPath (hx h) (hy h) R @ [ClosePath, SetFillStyle (darkColor p), Fill]
         else [])"
proof (cases "direction p")
  case Reveal
  have "drawTile p g (h\<lparr>delay := Num d\<rparr>) =
      (if 1 - easeOutQuart (spec_localProgress g d WAVE_SPREAD) > 0.01
       then drawHexagon (hx h) (hy h)
              (HEX_DRAW_SIZE * (1 - easeOutQuart (spec_localProgress g d WAVE_SPREAD)))
              (darkColor p)
       else [])"
    unfolding drawTile_def tileSize_Num using Reveal by simp
  then show ?thesis
    unfolding paint_directional Let_def Reveal spec_drawnRadius_Reveal .
next
  case Hide
  have "drawTile p g (h\<lparr>delay := Num d\<rparr>) =
      (if easeInQuart (spec_localProgress g d WAVE_SPREAD) > 0.01
       then drawHexagon (hx h) (hy h)
              (HEX_DRAW_SIZE * easeInQuart (spec_localProgress g d WAVE_SPREAD)) (darkColor p)
       else [])"
    unfolding drawTile_def tileSize_Num using Hide by simp
  then show ?thesis
    unfolding paint_directional Let_def Hide spec_drawnRadius_Hide .
qed

lemma drawTile_radial_Num:
  "drawTile_radial p g (h\<lparr>delay := Num d\<rparr>) =
     (let eased = easeInOutCubic (spec_localProgress g d WAVE_SPREAD_radial);
          R = HEX_SIZE_radial * (case direction p of Reveal \<Rightarrow> 1 - eased | Hide \<Rightarrow> eased)
      in if 0.5 \<le> R
         then [BeginPath] @ hexPath (hx h) (hy h) R @ [ClosePath, SetFillStyle (darkColor p), Fill]
         else [])"
proof (cases "direction p")
  case Reveal
  have "drawTile_radial p g (h\<lparr>delay := Num d\<rparr>) =
      (if easeInOutCubic (spec_localProgress g d WAVE_SPREAD_radial) < 1
       then drawHexagon_radial (hx h) (hy h)
              (HEX_SIZE_radial * (1 - easeInOutCubic (spec_localProgress g d WAVE_SPREAD_radial)))
              (darkColor p)
       else [])"
    unfolding drawTile_radial_def tileSize_radial_Num using Reveal by simp
  then show ?thesis
    unfolding paint_radial_reveal Let_def Reveal direction.case .
next
  case Hide
  have "drawTile_radial p g (h\<lparr>delay := Num d\<rparr>) =
      (if easeInOutCubic (spec_localProgress g d WAVE_SPREAD_radial) > 0
       then drawHexagon_radial (hx h) (hy h)
              (HEX_SIZE_radial * easeInOutCubic (spec_localProgress g d WAVE_SPREAD_radial))
              (darkColor p)
       else [])"
    unfolding drawTile_radial_def tileSize_radial_Num using Hide by simp
  then show ?thesis
    unfolding paint_radial_hide Let_def Hide direction.case .
qed

text \<open>
  C4, as the specification states it, fails in two ways, both at global progress 0.325
  and delay 0 in a reveal run. In the radial version the local progress is 0.5 and the
  tile is drawn at radius 16 (cubic ease-in-out, times the tile radius 32), where the
  quartic ease-out of the specification gives 2. In the directional version the local
  progress is 0.65 and the radius of the specification is 0.7203, below one pixel, and
  the tile is not drawn at all.
\<close>

theorem tile_drawing_counterexample:
  "tileSize_radial \<lparr>isActive = True, direction = Reveal, onComplete = True,
                     onPartialReveal = True, darkColor = ''#0B0E14'', lightColor = ''#ffffff'',
                     originX = Num 0.5, originY = Num 0.3\<rparr>
                   0.325 \<lparr>hx = 0, hy = 0, delay = Num 0\<rparr> = Some 16
   \<and> spec_drawnRadius Reveal HEX_SIZE_radial 0.325 0 WAVE_SPREAD_radial = 2
   \<and> spec_drawnRadius Reveal HEX_DRAW_SIZE 0.325 0 WAVE_SPREAD = 0.7203
   \<and> drawTile \<lparr>isActive = True, direction = Reveal, onComplete = True,
                 onPartialReveal = True, darkColor = ''#0B0E14'', lightColor = ''#ffffff'',
                 originX = Num 0.5, originY = Num 0.3\<rparr>
               0.325 \<lparr>hx = 0, hy = 0, delay = Num 0\<rparr> = []"
proof -
  let ?p = "\<lparr>isActive = True, direction = Reveal, onComplete = True,
             onPartialReveal = True, darkColor = ''#0B0E14'', lightColor = ''#ffffff'',
             originX = Num 0.5, originY = Num 0.3\<rparr>"
  let ?h = "\<lparr>hx = 0, hy = 0, delay = Num 0\<rparr>"
  have h: "?h = ?h\<lparr>delay := Num 0\<rparr>"
    by simp
  have lr: "spec_localProgress 0.325 0 WAVE_SPREAD_radial = 0.5"
    by (simp add: spec_localProgress_def WAVE_SPREAD_radial_def)
  have ld: "spec_localProgress 0.325 0 WAVE_SPREAD = 0.65"
    by (simp add: spec_localProgress_def WAVE_SPREAD_def)
  have a: "tileSize_radial ?p 0.325 ?h = Some 16"
    by (subst h, simp only: tileSize_radial_Num lr)
       (simp add: easeInOutCubic_def HEX_SIZE_radial_def power3_eq_cube)
  have b: "spec_drawnRadius Reveal HEX_SIZE_radial 0.325 0 WAVE_SPREAD_radial = 2"
    by (simp only: spec_drawnRadius_Reveal lr)
       (simp add: easeOutQuart_def HEX_SIZE_radial_def power4_eq_xxxx)
  have c: "spec_drawnRadius Reveal HEX_DRAW_SIZE 0.325 0 WAVE_SPREAD = 0.7203"
    by (simp only: spec_drawnRadius_Reveal ld)
       (simp add: easeOutQuart_def HEX_DRAW_SIZE_def power4_eq_xxxx)
  have dir: "direction ?p = Reveal"
    by simp
  have lt: "\<not> 1 \<le> spec_drawnRadius Reveal HEX_DRAW_SIZE 0.325 0 WAVE_SPREAD"
    unfolding c by simp
  have "drawTile ?p 0.325 (?h\<lparr>delay := Num 0\<rparr>) = []"
    unfolding drawTile_Num Let_def dir using lt by (simp only: if_False)
  then have d: "drawTile ?p 0.325 ?h = []"
    by simp
  show ?thesis
    using a b c d by (intro conjI)
qed

text \<open>
  C4, amended. On every tick the frame goes through all tiles with the global progress
  of the tick, and for a tile with a finite delay the local progress is the one of the
  specification in both versions. The directional version applies a quartic ease-out
  for reveal and a quartic ease-in for hide; with R the draw radius 48 times one less
  the eased progress for reveal, times the eased progress for hide, it paints the tile
  as a hexagon of radius R when R is at least 1, and paints nothing for it otherwise.
  The radial version applies a cubic ease-in-out for both directions; with R the tile
  radius 32 times one less the eased progress for reveal, times the eased progress for
  hide, it paints the tile as a hexagon of radius R when R is at least 0.5, and nothing
  otherwise. A tile whose delay is NaN is not painted.
\<close>

theorem tile_radius:
  "drawTile p g (h\<lparr>delay := Num d\<rparr>) =
     (let R = spec_drawnRadius (direction p) HEX_DRAW_SIZE g d WAVE_SPREAD
      in if 1 \<le> R
         then [BeginPath] @ hexPath (hx h) (hy h) R @ [ClosePath, SetFillStyle (darkColor p), Fill]
         else [])
   \<and> drawTile_radial p g (h\<lparr>delay := Num d\<rparr>) =
     (let eased = easeInOutCubic (spec_localProgress g d WAVE_SPREAD_radial);
          R = HEX_SIZE_radial * (case direction p of Reveal \<Rightarrow> 1 - eased | Hide \<Rightarrow> eased)
      in if 0.5 \<le> R
         then [BeginPath] @ hexPath (hx h) (hy h) R @ [ClosePath, SetFillStyle (darkColor p), Fill]
         else [])
   \<and> drawTile p g (h\<lparr>delay := NaN\<rparr>) = []
   \<and> drawTile_radial p g (h\<lparr>delay := NaN\<rparr>) = []
   \<and> ops (animate p e t c) =
       ops c @ [ClearRect 0 0 (innerWidth e) (innerHeight e), SetFillStyle (lightColor p),
                FillRect 0 0 (innerWidth e) (innerHeight e)]
       @ concat (map (drawTile p (progressAt c t)) (hexes c))
   \<and> ops (animate_radial p e t c) =
       ops c @ [ClearRect 0 0 (innerWidth e) (innerHeight e)]
       @ concat (map (drawTile_radial p (progressAt_radial c t)) (hexes c))"
proof -
  have n: "drawTile p g (h\<lparr>delay := NaN\<rparr>) = []"
    by (simp add: drawTile_def tileSize_NaN)
  have nr: "drawTile_radial p g (h\<lparr>delay := NaN\<rparr>) = []"
    by (simp add: drawTile_radial_def tileSize_radial_NaN)
  have f: "ops (animate p e t c) =
       ops c @ [ClearRect 0 0 (innerWidth e) (innerHeight e), SetFillStyle (lightColor p),
                FillRect 0 0 (innerWidth e) (innerHeight e)]
       @ concat (map (drawTile p (progressAt c t)) (hexes c))"
    by (simp add: animate_alt)
  have fr: "ops (animate_radial p e t c) =
       ops c @ [ClearRect 0 0 (innerWidth e) (innerHeight e)]
       @ concat (map (drawTile_radial p (progressAt_radial c t)) (hexes c))"
    by (simp add: animate_radial_alt)
  show ?thesis
    using drawTile_Num drawTile_radial_Num n nr f fr
    by (intro conjI)
qed

section \<open>An exit with an empty target\<close>

lemma exit_request_state:
  assumes "committed s" and "phase s \<noteq> Exiting"
  shows "phase (commit (paperPageExit target s)) = Exiting"
    and "exitTarget (commit (paperPageExit target s)) = Some target"
    and "navigations (commit (paperPageExit target s)) = navigations s"
    and "runs (commit (paperPageExit target s)) = runs s @ [Hide]"
    and "activeCanvas (commit (paperPageExit target s)) = Some Hide"
  using assms
  by (auto simp add: committed_def canvasOf_def commit_def paperPageExit_def handleExit_def
      split: if_splits)

lemma exit_request_radial_state:
  assumes "committed s" and "phase s \<noteq> Exiting"
  shows "phase (commit (paperPageExit_radial w h target cx cy s)) = Exiting"
    and "exitTarget (commit (paperPageExit_radial w h target cx cy s)) = Some target"
    and "navigations (commit (paperPageExit_radial w h target cx cy s)) = navigations s"
    and "runs (commit (paperPageExit_radial w h target cx cy s)) = runs s @ [Hide]"
    and "activeCanvas (commit (paperPageExit_radial w h target cx cy s)) = Some Hide"
  using assms
  by (auto simp add: committed_def canvasOf_def commit_def paperPageExit_radial_def
      handleExit_radial_def Let_def split: if_splits option.splits)

lemma handleExitComplete_empty_target:
  "exitTarget s = Some [] \<Longrightarrow> handleExitComplete s = s"
  by (simp add: handleExitComplete_def)

text \<open>
  C10. From a committed state that is not exiting, an exit request with the empty string
  as target stores it and starts one hide run, which completes (the exiting canvas has a
  completion handler and no partial-reveal handler). The completion handler then takes
  the empty string for no target: it does not navigate and does not clear the slot; the
  phase stays exiting, and after the next commit every further exit request is dropped
  by the guard. This holds in both versions.
\<close>

theorem empty_target_exit_sticks:
  assumes "committed s" and "phase s \<noteq> Exiting"
    and "isActive p" and "direction p = Hide" and "onComplete p" and "\<not> onPartialReveal p"
    and "canvasPresent e" and "ctxPresent e"
    and "prefersReducedMotion e \<or> (\<exists>t\<in>set ticks. DURATION \<le> t - hd ticks)"
  shows "let s1 = commit (paperPageExit [] s); s2 = handleExitComplete s1;
             r1 = commit (paperPageExit_radial w h [] cx cy s); r2 = handleExitComplete r1
         in phase s1 = Exiting \<and> exitTarget s1 = Some [] \<and> runs s1 = runs s @ [Hide]
            \<and> callbacks (run p e ticks) = [OnComplete]
            \<and> navigations s2 = navigations s \<and> exitTarget s2 = Some [] \<and> phase s2 = Exiting
            \<and> (\<forall>target. paperPageExit target (commit s2) = commit s2)
            \<and> phase r1 = Exiting \<and> exitTarget r1 = Some [] \<and> runs r1 = runs s @ [Hide]
            \<and> callbacks (run_radial p e ticks) = [OnComplete]
            \<and> navigations r2 = navigations s \<and> exitTarget r2 = Some [] \<and> phase r2 = Exiting
            \<and> (\<forall>target x y. paperPageExit_radial w h target x y (commit r2) = commit r2)"
proof -
  let ?s1 = "commit (paperPageExit [] s)"
  let ?r1 = "commit (paperPageExit_radial w h [] cx cy s)"
  note s1 = exit_request_state [OF assms(1,2), of "[]"]
  note r1 = exit_request_radial_state [OF assms(1,2), of w h "[]" cx cy]
  have s2: "handleExitComplete ?s1 = ?s1"
    using s1(2) by (rule handleExitComplete_empty_target)
  have r2: "handleExitComplete ?r1 = ?r1"
    using r1(2) by (rule handleExitComplete_empty_target)
  have run: "callbacks (run p e ticks) = [OnComplete]"
  proof (cases "prefersReducedMotion e")
    case True
    then show ?thesis
      using run_reduced [of p e ticks] startRun_reduced(2) [of p e] assms
      by (simp add: callbacks_def)
  next
    case False
    then show ?thesis
      using run_completes [of p e ticks] assms by simp
  qed
  have run_r: "callbacks (run_radial p e ticks) = [OnComplete]"
  proof (cases "prefersReducedMotion e")
    case True
    then show ?thesis
      using run_radial_reduced [of p e ticks] startRun_radial_reduced(2) [of p e] assms
      by (simp add: callbacks_def)
  next
    case False
    then obtain t where "t \<in> set ticks" and "DURATION \<le> t - hd ticks"
      using assms(9) by blast
    then have "\<exists>t\<in>set ticks. DURATION_radial \<le> t - hd ticks"
      by (intro bexI [of _ t]) (simp_all add: DURATION_def DURATION_radial_def)
    then show ?thesis
      using run_radial_completes [of p e ticks] False assms by simp
  qed
  have d: "paperPageExit target (commit ?s1) = commit ?s1" for target
    using s1(1) by (rule paperPageExit_dropped)
  have dr: "paperPageExit_radial w h target x y (commit ?r1) = commit ?r1" for target x y
    using r1(1) by (rule paperPageExit_radial_dropped)
  show ?thesis
    unfolding Let_def s2 r2 using s1 r1 run run_r d dr by simp
qed

theorem empty_target_exit_sticks_witness:
  "let s = \<lparr>phase = Visible, showContent = True, showCanvas = False, exitOrigin = (Num 0.5, Num 0.5),
             exitTarget = None, navigations = [], renderedPhase = Visible,
             activeCanvas = None, runs = [Reveal]\<rparr>;
       s2 = handleExitComplete (commit (paperPageExit [] s))
   in navigations s2 = navigations s \<and> exitTarget s2 = Some [] \<and> phase s2 = Exiting
      \<and> paperPageExit ''/publications'' (commit s2) = commit s2
      \<and> callbacks (run \<lparr>isActive = True, direction = Hide, onComplete = True,
                   onPartialReveal = False, darkColor = ''#0B0E14'', lightColor = ''#ffffff'',
                   originX = Num 0.5, originY = Num 0.5\<rparr>
                 \<lparr>canvasPresent = True, ctxPresent = True, devicePixelRatio = 1,
                   innerWidth = 1920, innerHeight = 1080, prefersReducedMotion = False,
                   rnd = (\<lambda>k. 0.5)\<rparr>
                 [100, 400, 700, 1100]) = [OnComplete]"
proof -
  let ?s = "\<lparr>phase = Visible, showContent = True, showCanvas = False, exitOrigin = (Num 0.5, Num 0.5),
             exitTarget = None, navigations = [], renderedPhase = Visible,
             activeCanvas = None, runs = [Reveal]\<rparr>"
  let ?p = "\<lparr>isActive = True, direction = Hide, onComplete = True,
             onPartialReveal = False, darkColor = ''#0B0E14'', lightColor = ''#ffffff'',
             originX = Num 0.5, originY = Num 0.5\<rparr>"
  let ?e = "\<lparr>canvasPresent = True, ctxPresent = True, devicePixelRatio = 1,
             innerWidth = 1920, innerHeight = 1080, prefersReducedMotion = False,
             rnd = (\<lambda>k. 0.5)\<rparr>"
  have c: "committed ?s"
    by (simp add: committed_def canvasOf_def)
  have v: "phase ?s \<noteq> Exiting" "isActive ?p" "direction ?p = Hide" "onComplete ?p"
    "\<not> onPartialReveal ?p" "canvasPresent ?e" "ctxPresent ?e"
    by simp_all
  have t: "prefersReducedMotion ?e
           \<or> (\<exists>t\<in>set [100, 400, 700, 1100 :: real]. DURATION \<le> t - hd [100, 400, 700, 1100])"
    by (simp add: DURATION_def)
  show ?thesis
    using empty_target_exit_sticks [OF c v t, of 1920 1080 None None]
    unfolding Let_def by blast
qed

end
